theory Spec2Isabelle
  imports Complex_Main
begin

section \<open>JavaScript values\<close>

text \<open>
  The relay (\<^verbatim>\<open>backend/src/server.js\<close>) works on the parsed JSON body of a request, the
  client (\<^verbatim>\<open>extractFollowUpSuggestions\<close>) on the text of a reply. Both are modelled over a
  datatype of the JavaScript values a parsed JSON document can hold, with \<open>undefined\<close> for
  an absent property.

  Strings. A JavaScript string is a sequence of UTF-16 code units; \<open>length\<close>, \<open>slice\<close>,
  \<open>trim\<close> and the regular expressions of the source (no \<open>u\<close> flag) all count code units.
  A \<^typ>\<open>string\<close> here is a list of 8-bit characters, each standing for one code unit in the
  range U+0000..U+00FF. The model therefore covers the strings whose code units are below
  256; on them \<^const>\<open>length\<close> is the \<open>length\<close> of the source.

  Numbers. A number is \<open>NaN\<close>, an infinity, or a finite value, kept as a rational: every
  finite double is one, and the source only compares numbers and passes them on, which is
  exact on doubles. The two zeros of IEEE 754 are one value here (they compare equal in
  the source, too).
\<close>

datatype jsnum = NaN | NegInf | Fin rat | PosInf

datatype jsval =
    JUndefined
  | JNull
  | JBool bool
  | JNum jsnum
  | JStr string
  | JArr "jsval list"
  | JObj "(string \<times> jsval) list"

text \<open>\<open>a < b\<close> on numbers: false as soon as one side is \<open>NaN\<close>.\<close>

fun js_lt :: "jsnum \<Rightarrow> jsnum \<Rightarrow> bool" where
  "js_lt (Fin a) (Fin b) = (a < b)"
| "js_lt (Fin a) PosInf = True"
| "js_lt NegInf (Fin b) = True"
| "js_lt NegInf PosInf = True"
| "js_lt _ _ = False"

text \<open>\<open>!v\<close> is \<open>falsy v\<close>: \<open>undefined\<close>, \<open>null\<close>, \<open>false\<close>, \<open>0\<close>, \<open>NaN\<close> and the empty string.\<close>

fun falsy :: "jsval \<Rightarrow> bool" where
  "falsy JUndefined = True"
| "falsy JNull = True"
| "falsy (JBool b) = (b = False)"
| "falsy (JNum n) = (n = NaN \<or> n = Fin 0)"
| "falsy (JStr s) = (s = [])"
| "falsy (JArr xs) = False"
| "falsy (JObj kvs) = False"

fun js_typeof :: "jsval \<Rightarrow> string" where
  "js_typeof JUndefined = ''undefined''"
| "js_typeof JNull = ''object''"
| "js_typeof (JBool b) = ''boolean''"
| "js_typeof (JNum n) = ''number''"
| "js_typeof (JStr s) = ''string''"
| "js_typeof (JArr xs) = ''object''"
| "js_typeof (JObj kvs) = ''object''"

text \<open>
  Reading a property \<open>v.k\<close> (and \<open>v?.k\<close>). An object is the list of its own properties, the
  first binding of a key being the property. The source reads only the names \<open>messages\<close>,
  \<open>model\<close>, \<open>temperature\<close>, \<open>top_p\<close>, \<open>max_tokens\<close>, \<open>role\<close>, \<open>content\<close> and \<open>error\<close>, none of
  which an array, a string, a number or a boolean inherits, so the read gives \<open>undefined\<close>
  on everything but an object. Every plain read \<open>v.k\<close> of the source is behind a check that
  \<open>v\<close> is neither \<open>undefined\<close> nor \<open>null\<close>.
\<close>

fun js_get :: "jsval \<Rightarrow> string \<Rightarrow> jsval" where
  "js_get (JObj kvs) k = (case map_of kvs k of Some v \<Rightarrow> v | None \<Rightarrow> JUndefined)"
| "js_get _ k = JUndefined"

text \<open>
  \<open>String(v)\<close>. \<open>None\<close> is the \<open>TypeError\<close> the conversion throws. An object converts
  through \<open>Object.prototype.toString\<close> unless it has an own property \<open>toString\<close>; in a parsed
  JSON document such a property is never a function, the conversion then falls back to
  \<open>valueOf\<close>, which gives no primitive either, and throws. An array converts through
  \<open>join\<close>: the elements separated by commas, \<open>undefined\<close> and \<open>null\<close> as the empty string.
  The digits that \<open>Number.prototype.toString\<close> gives a number are not modelled: the
  rendering of numbers is the parameter \<open>ns\<close>.
\<close>

fun ToString :: "(jsnum \<Rightarrow> string) \<Rightarrow> jsval \<Rightarrow> string option"
  and join_elements :: "(jsnum \<Rightarrow> string) \<Rightarrow> jsval list \<Rightarrow> string option"
  and element_text :: "(jsnum \<Rightarrow> string) \<Rightarrow> jsval \<Rightarrow> string option" where
  "ToString ns JUndefined = Some ''undefined''"
| "ToString ns JNull = Some ''null''"
| "ToString ns (JBool b) = Some (if b then ''true'' else ''false'')"
| "ToString ns (JNum n) = Some (ns n)"
| "ToString ns (JStr s) = Some s"
| "ToString ns (JArr xs) = join_elements ns xs"
| "ToString ns (JObj kvs) =
     (case map_of kvs ''toString'' of
        None \<Rightarrow> Some ''[object Object]''
      | Some f \<Rightarrow> None)"
| "join_elements ns [] = Some []"
| "join_elements ns [x] = element_text ns x"
| "join_elements ns (x # y # ys) =
     (case element_text ns x of
        None \<Rightarrow> None
      | Some a \<Rightarrow>
          (case join_elements ns (y # ys) of
             None \<Rightarrow> None
           | Some b \<Rightarrow> Some (a @ '','' @ b)))"
| "element_text ns JUndefined = Some []"
| "element_text ns JNull = Some []"
| "element_text ns v = ToString ns v"

subsection \<open>String operations\<close>

text \<open>
  The white space that \<open>trim\<close> removes and \<open>\s\<close> matches (the same set in ECMAScript:
  WhiteSpace and LineTerminator), as far as it lies below U+0100: tab, line feed, vertical
  tab, form feed, carriage return, space and no-break space.
\<close>

definition is_space :: "char \<Rightarrow> bool" where
  "is_space c =
     (c = CHR 0x09 \<or> c = CHR 0x0A \<or> c = CHR 0x0B \<or> c = CHR 0x0C \<or> c = CHR 0x0D
      \<or> c = CHR 0x20 \<or> c = CHR 0xA0)"

definition trim :: "string \<Rightarrow> string" where
  "trim s = rev (dropWhile is_space (rev (dropWhile is_space s)))"

definition startsWith :: "string \<Rightarrow> string \<Rightarrow> bool" where
  "startsWith s p = (take (length p) s = p)"

text \<open>
  \<open>toLowerCase\<close> on code units below U+0100: the letters A--Z and the capital letters
  U+00C0..U+00DE of Latin-1 (U+00D7, the multiplication sign, is none) move up by 32; every
  other code unit stays.
\<close>

definition lower_unit :: "char \<Rightarrow> char" where
  "lower_unit c =
     (let n = (of_char c :: nat) in
      if (65 \<le> n \<and> n \<le> 90) \<or> (192 \<le> n \<and> n \<le> 222 \<and> n \<noteq> 215)
      then char_of (n + 32) else c)"

definition toLowerCase :: "string \<Rightarrow> string" where
  "toLowerCase s = map lower_unit s"

section \<open>The relay: sanitizing the messages\<close>

record turn =
  role :: string
  content :: string

definition MAX_MESSAGES :: nat where
  "MAX_MESSAGES = 50"

definition MAX_CHARS :: nat where
  "MAX_CHARS = 4000"

definition allowedRoles :: "string list" where
  "allowedRoles = [''user'', ''assistant'', ''system'']"

text \<open>\<open>allowedRoles.has(m.role) ? m.role : 'user'\<close>: only a string can be in the set.\<close>

definition pick_role :: "jsval \<Rightarrow> string" where
  "pick_role r =
     (case r of
        JStr s \<Rightarrow> if List.member allowedRoles s then s else ''user''
      | _ \<Rightarrow> ''user'')"

text \<open>
  The text of \<open>m.content\<close> after lines 111--118 of the source: a string is kept, \<open>null\<close> and
  \<open>undefined\<close> skip the entry (\<open>None\<close>), anything else goes through \<open>String\<close>, and a
  conversion that throws skips the entry.
\<close>

definition content_text :: "(jsnum \<Rightarrow> string) \<Rightarrow> jsval \<Rightarrow> string option" where
  "content_text ns c =
     (case c of
        JStr s \<Rightarrow> Some s
      | JNull \<Rightarrow> None
      | JUndefined \<Rightarrow> None
      | _ \<Rightarrow> ToString ns c)"

text \<open>
  One pass of the loop body of \<open>sanitizeMessages\<close>: \<open>None\<close> is \<open>continue\<close>, \<open>Some t\<close> is
  \<open>safe.push(t)\<close>.
\<close>

definition sanitize_entry :: "(jsnum \<Rightarrow> string) \<Rightarrow> jsval \<Rightarrow> turn option" where
  "sanitize_entry ns m =
     (if falsy m then None
      else if js_typeof m = ''object'' then
        (let r = pick_role (js_get m ''role'') in
         case content_text ns (js_get m ''content'') of
           None \<Rightarrow> None
         | Some c \<Rightarrow>
             (let normalized = trim c in
              if normalized = [] then None
              else
                (let limited =
                   (if length normalized > MAX_CHARS then take MAX_CHARS normalized
                    else normalized)
                 in Some \<lparr>role = r, content = limited\<rparr>)))
      else None)"

fun sanitize_loop :: "(jsnum \<Rightarrow> string) \<Rightarrow> jsval list \<Rightarrow> turn list \<Rightarrow> turn list" where
  "sanitize_loop ns [] safe = safe"
| "sanitize_loop ns (m # ms) safe =
     (case sanitize_entry ns m of
        None \<Rightarrow> sanitize_loop ns ms safe
      | Some t \<Rightarrow> sanitize_loop ns ms (safe @ [t]))"

text \<open>\<open>xs.slice(-n)\<close>: the last \<open>n\<close> elements, all of them when there are fewer.\<close>

definition slice_last :: "nat \<Rightarrow> 'a list \<Rightarrow> 'a list" where
  "slice_last n xs = drop (length xs - n) xs"

definition sanitizeMessages :: "(jsnum \<Rightarrow> string) \<Rightarrow> jsval \<Rightarrow> turn list" where
  "sanitizeMessages ns rawMessages =
     (case rawMessages of
        JArr xs \<Rightarrow> sanitize_loop ns (slice_last MAX_MESSAGES xs) []
      | _ \<Rightarrow> [])"

section \<open>The relay: composing the request\<close>

record payload =
  model :: string
  messages :: "turn list"
  temperature :: jsval
  top_p :: jsval
  max_tokens :: jsval

text \<open>\<open>clampNumber\<close>; the bounds are number literals at every call.\<close>

definition clampNumber :: "jsval \<Rightarrow> jsnum \<Rightarrow> jsnum \<Rightarrow> jsval" where
  "clampNumber v mn mx =
     (case v of
        JNum x \<Rightarrow>
          if x = NaN then JUndefined
          else if js_lt x mn then JNum mn
          else if js_lt mx x then JNum mx
          else JNum x
      | _ \<Rightarrow> JUndefined)"

definition baseSystemPrompt_default :: string where
  \<open>baseSystemPrompt_default =
     ''You are Alpha. If asked who created you or who built you, answer exactly: "Sarthak created me." Always refer to yourself as Alpha.''\<close>

definition suggestionInstructions :: string where
  \<open>suggestionInstructions =
     ''When you answer, always: 1) Provide the best possible answer in a clear, concise and well-organized way, using headings, bullet points and step-by-step lists when helpful. 2) Keep explanations focused and avoid unnecessary repetition. 3) After the main answer, add a short section titled "Follow-up suggestions" with 3-5 short example questions the user could ask next that are directly related to their original question.''\<close>

text \<open>\<open>process.env.SYSTEM_PROMPT || '...'\<close>: an unset or empty variable gives the default.\<close>

definition baseSystemPrompt :: "string option \<Rightarrow> string" where
  "baseSystemPrompt env_SYSTEM_PROMPT =
     (case env_SYSTEM_PROMPT of
        None \<Rightarrow> baseSystemPrompt_default
      | Some p \<Rightarrow> if p = [] then baseSystemPrompt_default else p)"

definition defaultSystemPrompt :: "string option \<Rightarrow> string" where
  "defaultSystemPrompt env_SYSTEM_PROMPT =
     baseSystemPrompt env_SYSTEM_PROMPT @ [CHR 0x0A, CHR 0x0A] @ suggestionInstructions"

definition selectedModel :: "jsval \<Rightarrow> string" where
  "selectedModel m =
     (case m of
        JStr s \<Rightarrow> if trim s = [] then ''openai/gpt-4o-mini'' else trim s
      | _ \<Rightarrow> ''openai/gpt-4o-mini'')"

definition finalMessages :: "string option \<Rightarrow> turn list \<Rightarrow> turn list" where
  "finalMessages env_SYSTEM_PROMPT safeMessages =
     (let hasSystem = list_ex (\<lambda>m. role m = ''system'') safeMessages in
      if hasSystem then safeMessages
      else \<lparr>role = ''system'', content = defaultSystemPrompt env_SYSTEM_PROMPT\<rparr> # safeMessages)"

text \<open>
  The handler of \<open>POST /api/chat\<close> up to the payload it sends to the provider (lines
  166--205). \<open>Inl (status, error)\<close> is the response \<open>res.status(status).json({ error })\<close>,
  \<open>Inr p\<close> the payload posted. \<open>openRouterKey\<close> and \<open>env_SYSTEM_PROMPT\<close> are the two
  environment variables the handler reads, \<open>None\<close> when unset; \<open>body\<close> is \<open>req.body\<close>.

  \<open>request_body\<close> is \<open>req.body || {}\<close>, and \<open>safeMessages\<close> the constant of that name
  (lines 171--173). \<open>RequestSanitizer\<close> is the handler from line 171 on: the component the
  specification calls by that name. \<open>api_chat\<close> puts the check of the provider key (lines
  167--169) before it.
\<close>

definition request_body :: "jsval \<Rightarrow> jsval" where
  "request_body body = (if falsy body then JObj [] else body)"

definition safeMessages :: "(jsnum \<Rightarrow> string) \<Rightarrow> jsval \<Rightarrow> turn list" where
  "safeMessages ns body = sanitizeMessages ns (js_get (request_body body) ''messages'')"

definition RequestSanitizer ::
  "(jsnum \<Rightarrow> string) \<Rightarrow> string option \<Rightarrow> jsval \<Rightarrow> (nat \<times> string) + payload" where
  "RequestSanitizer ns env_SYSTEM_PROMPT body =
     (if length (safeMessages ns body) = 0 then
        Inl (400, ''Invalid request: at least one non-empty user message is required'')
      else
        Inr \<lparr>model = selectedModel (js_get (request_body body) ''model''),
             messages = finalMessages env_SYSTEM_PROMPT (safeMessages ns body),
             temperature = clampNumber (js_get (request_body body) ''temperature'') (Fin 0) (Fin 1),
             top_p = clampNumber (js_get (request_body body) ''top_p'') (Fin 0) (Fin 1),
             max_tokens = clampNumber (js_get (request_body body) ''max_tokens'') (Fin 1) (Fin 4096)\<rparr>)"

definition api_chat ::
  "(jsnum \<Rightarrow> string) \<Rightarrow> string option \<Rightarrow> string option \<Rightarrow> jsval \<Rightarrow> (nat \<times> string) + payload" where
  "api_chat ns openRouterKey env_SYSTEM_PROMPT body =
     (case openRouterKey of
        None \<Rightarrow> Inl (500, ''Server not configured: missing OPENROUTER_API_KEY'')
      | Some k \<Rightarrow>
          if k = [] then Inl (500, ''Server not configured: missing OPENROUTER_API_KEY'')
          else RequestSanitizer ns env_SYSTEM_PROMPT body)"

section \<open>The relay: classifying a provider failure\<close>

text \<open>
  What the handler catches is the error of the HTTP client: \<open>response\<close> is there when the
  provider answered (\<open>status\<close> its HTTP status, \<open>data\<close> the parsed body), \<open>code\<close> is the
  client's error code (\<open>ECONNABORTED\<close> after the timeout) and \<open>message\<close> its message.
\<close>

record axios_response =
  status :: nat
  data :: jsval

record axios_error =
  response :: "axios_response option"
  code :: jsval
  message :: jsval

text \<open>\<open>err?.response?.data?.error || err?.message || 'Unknown error'\<close>\<close>

definition rawMessage :: "axios_error \<Rightarrow> jsval" where
  "rawMessage err =
     (let e = (case response err of None \<Rightarrow> JUndefined | Some r \<Rightarrow> js_get (data r) ''error'') in
      if falsy e then (if falsy (message err) then JStr ''Unknown error'' else message err)
      else e)"

text \<open>The result \<open>{ statusCode, message }\<close> is the pair \<open>(statusCode, message)\<close>.\<close>

definition buildClientErrorFromOpenRouter :: "axios_error \<Rightarrow> nat \<times> string" where
  "buildClientErrorFromOpenRouter err =
     (case (case response err of None \<Rightarrow> None | Some r \<Rightarrow> if status r = 0 then None else Some (status r)) of
        None \<Rightarrow>
          if code err = JStr ''ECONNABORTED'' then
            (504, ''The AI took too long to respond. Please try again.'')
          else (502, ''Unable to reach the AI service. Please try again in a moment.'')
      | Some st \<Rightarrow>
          if st = 401 \<or> st = 403 then
            (500, ''The AI backend is not authorized. Please contact the administrator.'')
          else if st = 429 then
            (429, ''The AI is receiving too many requests. Please slow down and try again shortly.'')
          else if st \<ge> 500 then
            (502, ''The AI provider is having an issue. Please try again later.'')
          else
            (st, (case rawMessage err of JStr s \<Rightarrow> s | _ \<Rightarrow> ''Request failed'')))"

section \<open>The client: follow-up suggestions\<close>

text \<open>\<open>content.split('\n')\<close>: \<open>cur\<close> is the line being read.\<close>

fun split_lines :: "string \<Rightarrow> string \<Rightarrow> string list" where
  "split_lines cur [] = [cur]"
| "split_lines cur (c # cs) =
     (if c = CHR 0x0A then cur # split_lines [] cs else split_lines (cur @ [c]) cs)"

text \<open>The test of \<open>findIndex\<close>: the line that opens the section.\<close>

definition is_header :: "string \<Rightarrow> bool" where
  "is_header line =
     (let t = toLowerCase (trim line) in
      t = ''follow-up suggestions:'' \<or> t = ''follow-up suggestions''
      \<or> startsWith t ''### follow-up suggestions'')"

text \<open>\<open>findIndex\<close>: the first index whose element passes, \<open>None\<close> for \<open>-1\<close>.\<close>

fun findIndex :: "('a \<Rightarrow> bool) \<Rightarrow> 'a list \<Rightarrow> nat option" where
  "findIndex P [] = None"
| "findIndex P (x # xs) =
     (if P x then Some 0 else (case findIndex P xs of None \<Rightarrow> None | Some i \<Rightarrow> Some (Suc i)))"

text \<open>
  The two regular expressions. \<open>.\<close> matches every code unit but a line terminator (below
  U+0100: line feed and carriage return), \<open>\d\<close> the digits 0--9, \<open>\s\<close> the white space of
  \<^const>\<open>is_space\<close>.

  \<open>\s+(.*)$\<close> on the rest of a line: \<open>\s+\<close> takes the longest run of white space, which
  must not be empty, and the group is all the rest, which must hold no line terminator.
  Backtracking into a shorter run cannot help: the group would only grow. \<open>None\<close> is no
  match, \<open>Some t\<close> a match whose group 1 is \<open>t\<close>.
\<close>

definition is_line_terminator :: "char \<Rightarrow> bool" where
  "is_line_terminator c = (c = CHR 0x0A \<or> c = CHR 0x0D)"

definition is_digit :: "char \<Rightarrow> bool" where
  "is_digit c = (48 \<le> (of_char c :: nat) \<and> (of_char c :: nat) \<le> 57)"

definition spaces_then_rest :: "string \<Rightarrow> string option" where
  "spaces_then_rest s =
     (if takeWhile is_space s = [] then None
      else if list_ex is_line_terminator (dropWhile is_space s) then None
      else Some (dropWhile is_space s))"

text \<open>\<open>line.match(/^[-*]\s+(.*)$/)\<close>\<close>

definition bulletMatch :: "string \<Rightarrow> string option" where
  "bulletMatch line =
     (case line of
        [] \<Rightarrow> None
      | c # rest \<Rightarrow> if c = CHR ''-'' \<or> c = CHR ''*'' then spaces_then_rest rest else None)"

text \<open>\<open>line.match(/^\d+\.\s+(.*)$/)\<close>; a shorter run of digits is never followed by the dot.\<close>

definition numberedMatch :: "string \<Rightarrow> string option" where
  "numberedMatch line =
     (if takeWhile is_digit line = [] then None
      else
        (case dropWhile is_digit line of
           [] \<Rightarrow> None
         | c # rest \<Rightarrow> if c = CHR ''.'' then spaces_then_rest rest else None))"

text \<open>
  \<open>(bulletMatch && bulletMatch[1]) || (numberedMatch && numberedMatch[1]) || null\<close>, and
  the test \<open>if (text)\<close> in one: \<open>Some t\<close> is a text that is truthy (not empty), \<open>None\<close>
  everything else (\<open>null\<close> or the empty string).
\<close>

definition item_text :: "string \<Rightarrow> string option" where
  "item_text line =
     (case bulletMatch line of
        Some (c # cs) \<Rightarrow> Some (c # cs)
      | _ \<Rightarrow>
          (case numberedMatch line of
             Some (c # cs) \<Rightarrow> Some (c # cs)
           | _ \<Rightarrow> None))"

text \<open>
  \<open>extractFollowUpSuggestions(content)\<close>; the argument is named \<open>reply\<close> below. First
  the loop over the lines after the header (lines 43--64): the first argument holds the
  lines from index \<open>i\<close> on, the second is \<open>suggestions\<close>; the result is \<open>suggestions\<close>
  when the loop is left.
\<close>

fun scan :: "string list \<Rightarrow> string list \<Rightarrow> string list" where
  "scan [] suggestions = suggestions"
| "scan (raw # rest) suggestions =
     (let line = trim raw in
      if line = [] then scan rest suggestions
      else if startsWith line ''#''
              \<and> (startsWith (toLowerCase line) ''### follow-up suggestions'' = False) then
        (if length suggestions > 0 then suggestions else scan rest suggestions)
      else
        (case item_text line of
           Some t \<Rightarrow>
             (let suggestions' = suggestions @ [trim t] in
              if length suggestions' \<ge> 5 then suggestions' else scan rest suggestions')
         | None \<Rightarrow>
             (if length suggestions > 0 then suggestions else scan rest suggestions)))"

definition extractFollowUpSuggestions :: "jsval \<Rightarrow> string list" where
  "extractFollowUpSuggestions reply =
     (case reply of
        JStr s \<Rightarrow>
          if s = [] then []
          else
            (let lines = split_lines [] s in
             case findIndex is_header lines of
               None \<Rightarrow> []
             | Some startIndex \<Rightarrow> scan (drop (startIndex + 1) lines) [])
      | _ \<Rightarrow> [])"

section \<open>The specification's words\<close>

text \<open>
  The sanitizer as the specification describes it (section 4.1, steps 1--3), to be compared
  with \<^const>\<open>sanitizeMessages\<close>: an input that is no sequence is empty; the last 50
  entries are kept; an entry that is no structured record is skipped; the role becomes
  \<open>user\<close> unless it is \<open>system\<close>, \<open>user\<close> or \<open>assistant\<close>; content that is text is taken as
  it is, a number or a boolean becomes text, \<open>null\<close> and \<open>undefined\<close> drop the entry, and
  so does a value that cannot be made text; the text is trimmed, dropped when nothing is
  left, and cut to its first 4000 characters.
\<close>

text \<open>
  Trimming, said without \<^const>\<open>trim\<close>: white space is taken off the front of the text,
  then off its end.
\<close>

fun strip_leading :: "string \<Rightarrow> string" where
  "strip_leading [] = []"
| "strip_leading (c # cs) = (if is_space c then strip_leading cs else c # cs)"

fun strip_trailing :: "string \<Rightarrow> string" where
  "strip_trailing [] = []"
| "strip_trailing (c # cs) = (if list_all is_space (c # cs) then [] else c # strip_trailing cs)"

definition spec_trim :: "string \<Rightarrow> string" where
  "spec_trim s = strip_trailing (strip_leading s)"

definition spec_role :: "jsval \<Rightarrow> string" where
  "spec_role r =
     (if r = JStr ''system'' then ''system''
      else if r = JStr ''user'' then ''user''
      else if r = JStr ''assistant'' then ''assistant''
      else ''user'')"

text \<open>
  The text of a content value. A record cannot be made text when it has a property
  \<open>toString\<close> of its own (no function, in a parsed body), and is \<open>[object Object]\<close>
  otherwise; an array is the texts of its elements with commas between them.
\<close>

definition spec_content :: "(jsnum \<Rightarrow> string) \<Rightarrow> jsval \<Rightarrow> string option" where
  "spec_content ns c =
     (case c of
        JStr s \<Rightarrow> Some s
      | JNum n \<Rightarrow> Some (ns n)
      | JBool b \<Rightarrow> Some (if b then ''true'' else ''false'')
      | JNull \<Rightarrow> None
      | JUndefined \<Rightarrow> None
      | JArr xs \<Rightarrow> ToString ns (JArr xs)
      | JObj kvs \<Rightarrow>
          if List.member (map fst kvs) ''toString'' then None else Some ''[object Object]'')"

definition spec_entry :: "(jsnum \<Rightarrow> string) \<Rightarrow> jsval \<Rightarrow> turn option" where
  "spec_entry ns m =
     (case m of
        JObj kvs \<Rightarrow>
          (case spec_content ns (js_get (JObj kvs) ''content'') of
             None \<Rightarrow> None
           | Some t \<Rightarrow>
               if spec_trim t = [] then None
               else Some \<lparr>role = spec_role (js_get (JObj kvs) ''role''),
                          content = take 4000 (spec_trim t)\<rparr>)
      | _ \<Rightarrow> None)"

definition spec_sanitize :: "(jsnum \<Rightarrow> string) \<Rightarrow> jsval \<Rightarrow> turn list" where
  "spec_sanitize ns raw =
     (case raw of
        JArr xs \<Rightarrow> List.map_filter (spec_entry ns) (rev (take 50 (rev xs)))
      | _ \<Rightarrow> [])"

text \<open>
  The model of the request (step 7): the fixed identifier when the field is absent, no
  text, or blank; else the field, trimmed.
\<close>

definition spec_model :: "jsval \<Rightarrow> string" where
  "spec_model m =
     (case m of
        JStr s \<Rightarrow> if list_all is_space s then ''openai/gpt-4o-mini'' else spec_trim s
      | _ \<Rightarrow> ''openai/gpt-4o-mini'')"

text \<open>
  The messages of the request (step 6): the surviving turns, after one system turn made
  of the base prompt, a blank line and the formatting instruction when none of them has
  role \<open>system\<close>.
\<close>

definition spec_compose :: "string option \<Rightarrow> turn list \<Rightarrow> turn list" where
  "spec_compose env survivors =
     (if List.member (map role survivors) ''system'' then survivors
      else \<lparr>role = ''system'',
            content = baseSystemPrompt env @ [CHR 0x0A, CHR 0x0A] @ suggestionInstructions\<rparr>
           # survivors)"

text \<open>
  The clamping of a numeric option as the specification describes it (step 5): a value
  that is no number, or is \<open>NaN\<close>, becomes absent; a number below the range becomes its
  lower end, a number above it its upper end, and a number inside stays.
\<close>

definition spec_clamp :: "rat \<Rightarrow> rat \<Rightarrow> jsval \<Rightarrow> jsval" where
  "spec_clamp lo hi v =
     (case v of
        JNum NaN \<Rightarrow> JUndefined
      | JNum NegInf \<Rightarrow> JNum (Fin lo)
      | JNum PosInf \<Rightarrow> JNum (Fin hi)
      | JNum (Fin q) \<Rightarrow> JNum (Fin (if q < lo then lo else if hi < q then hi else q))
      | _ \<Rightarrow> JUndefined)"

text \<open>A suggestion as it should be: not empty, and no white space at either end.\<close>

definition tidy :: "string \<Rightarrow> bool" where
  "tidy s = (s \<noteq> [] \<and> \<not> is_space (hd s) \<and> \<not> is_space (last s))"

section \<open>Sample inputs\<close>

text \<open>
  A rendering of numbers for the closed instances below. It is what \<open>String\<close> gives
  \<open>NaN\<close>, the infinities and every integer of magnitude below \<open>10^21\<close> (decimal digits,
  a minus sign before a negative one). On other numbers the source prints the shortest
  decimal that reads back as the same double, which \<open>integer_text\<close> does not; no instance
  below has such a number as the content of a message.
\<close>

fun digits :: "nat \<Rightarrow> string" where
  "digits n =
     (if n < 10 then [char_of (48 + n)]
      else digits (n div 10) @ [char_of (48 + n mod 10)])"

definition integer_text :: "jsnum \<Rightarrow> string" where
  "integer_text x =
     (case x of
        NaN \<Rightarrow> ''NaN''
      | PosInf \<Rightarrow> ''Infinity''
      | NegInf \<Rightarrow> ''-Infinity''
      | Fin q \<Rightarrow> (if q < 0 then ''-'' else []) @ digits (nat \<lfloor>\<bar>q\<bar>\<rfloor>))"

text \<open>Request bodies, failures and replies for the closed instances below.\<close>

definition mixed_contents :: jsval where
  "mixed_contents =
     JArr [JStr ''not a record'',
           JObj [(''role'', JStr ''assistant''), (''content'', JNum (Fin 42))],
           JObj [(''role'', JStr ''root''), (''content'', JBool False)],
           JObj [(''content'', JArr [JNum (Fin (- 1)), JNull, JStr ''x''])],
           JObj [(''content'', JObj [(''toString'', JNum (Fin 1))])],
           JObj [(''content'', JObj [])],
           JObj [(''role'', JStr ''user'')],
           JArr [JStr ''user'', JStr ''hello'']]"

definition long_content :: string where
  "long_content = '' '' @ replicate 4001 (CHR ''y'') @ [CHR 0x09, CHR 0xA0]"

definition padded_text :: string where
  "padded_text = [CHR 0x09, CHR 0x20] @ ''pad ded'' @ [CHR 0xA0, CHR 0x0A]"

definition blank_text :: string where
  "blank_text = [CHR 0x20, CHR 0x0B, CHR 0x0C, CHR 0x0D]"

definition padded_contents :: jsval where
  "padded_contents =
     JArr [JObj [(''role'', JStr ''system''), (''content'', JStr padded_text)],
           JObj [(''role'', JStr ''user''), (''content'', JStr blank_text)],
           JObj [(''role'', JStr ''assistant''), (''content'', JStr long_content)]]"

definition overfull_list :: jsval where
  "overfull_list =
     JArr (JObj [(''role'', JStr ''system''), (''content'', JStr ''the oldest entry'')]
           # replicate 50 (JObj [(''role'', JStr ''user''), (''content'', JStr ''a'')]))"

definition sample_options_body :: jsval where
  "sample_options_body =
     JObj [(''messages'', JArr [JObj [(''role'', JStr ''user''), (''content'', JStr ''hi'')]]),
           (''temperature'', JNum (Fin 2)),
           (''top_p'', JStr ''0.5''),
           (''max_tokens'', JNum (Fin (1 / 2)))]"

definition fifty_user_turns :: jsval where
  "fifty_user_turns =
     JObj [(''messages'',
            JArr (replicate 50 (JObj [(''role'', JStr ''user''), (''content'', JStr ''a'')])))]"

definition long_prompt :: string where
  "long_prompt = replicate 4000 (CHR ''x'')"

definition system_first_body :: jsval where
  "system_first_body =
     JObj [(''messages'',
            JArr [JObj [(''role'', JStr ''system''), (''content'', JStr ''Be brief.'')],
                  JNum (Fin 7),
                  JObj [(''role'', JStr ''tool''), (''content'', JStr '' hi '')]])]"

definition empty_messages_body :: jsval where
  "empty_messages_body = JObj [(''messages'', JArr [])]"

definition blank_message_body :: jsval where
  "blank_message_body =
     JObj [(''messages'', JArr [JObj [(''role'', JStr ''user''), (''content'', JStr ''   '')]])]"

definition malformed_body :: jsval where
  "malformed_body =
     JObj [(''messages'',
            JArr [JNull, JStr ''x'', JObj [(''role'', JNum (Fin 3)), (''content'', JBool True)]]),
           (''model'', JNum (Fin 42)),
           (''temperature'', JStr ''hot''),
           (''top_p'', JNum (Fin 5)),
           (''max_tokens'', JNum (Fin (- 3)))]"

definition padded_model_body :: jsval where
  "padded_model_body =
     JObj [(''messages'', JArr [JObj [(''role'', JStr ''assistant''), (''content'', JNum (Fin 7))]]),
           (''model'', JStr [CHR 0x20, CHR 0x20, CHR ''m'', CHR ''y'', CHR ''/'', CHR ''m'', CHR 0x09]),
           (''temperature'', JNum (Fin (1 / 4))),
           (''top_p'', JNum NaN),
           (''max_tokens'', JNum PosInf)]"

definition not_found_failure :: axios_error where
  "not_found_failure =
     \<lparr>response = Some \<lparr>status = 404, data = JObj [(''error'', JStr ''No such model'')]\<rparr>,
      code = JStr ''ERR_BAD_REQUEST'',
      message = JStr ''Request failed with status code 404''\<rparr>"

definition unauthorized_timeout_failure :: axios_error where
  "unauthorized_timeout_failure =
     \<lparr>response = Some \<lparr>status = 401, data = JObj [(''error'', JObj [(''code'', JNum (Fin 401))])]\<rparr>,
      code = JStr ''ECONNABORTED'',
      message = JStr ''Request failed with status code 401''\<rparr>"

definition timeout_failure :: axios_error where
  "timeout_failure =
     \<lparr>response = None, code = JStr ''ECONNABORTED'',
      message = JStr ''timeout of 60000ms exceeded''\<rparr>"

definition garbage_body_failure :: axios_error where
  "garbage_body_failure =
     \<lparr>response = Some \<lparr>status = 200, data = JStr ''<html>''\<rparr>,
      code = JUndefined, message = JNull\<rparr>"

definition sample_section :: string where
  "sample_section = ''### Follow-up suggestions\<newline>- What is X?\<newline>- How does Y work?''"

section \<open>Properties of trimming\<close>

lemma dropWhile_all_iff: "(\<forall>x\<in>set (dropWhile P xs). P x) \<longleftrightarrow> (\<forall>x\<in>set xs. P x)"
proof
  assume a: "\<forall>x\<in>set (dropWhile P xs). P x"
  have "dropWhile P xs = []"
  proof (rule ccontr)
    assume n: "dropWhile P xs \<noteq> []"
    then have "\<not> P (hd (dropWhile P xs))" by (rule hd_dropWhile)
    moreover have "hd (dropWhile P xs) \<in> set (dropWhile P xs)" using n by simp
    ultimately show False using a by blast
  qed
  then show "\<forall>x\<in>set xs. P x" by (simp add: dropWhile_eq_Nil_conv)
next
  assume "\<forall>x\<in>set xs. P x"
  then show "\<forall>x\<in>set (dropWhile P xs). P x"
    by (meson set_dropWhileD)
qed

lemma trim_Nil_iff: "trim s = [] \<longleftrightarrow> (\<forall>c\<in>set s. is_space c)"
  by (simp add: trim_def dropWhile_eq_Nil_conv dropWhile_all_iff)

lemma hd_trim: "trim s \<noteq> [] \<Longrightarrow> \<not> is_space (hd (trim s))"
proof -
  assume a: "trim s \<noteq> []"
  let ?d = "dropWhile is_space s"
  let ?r = "dropWhile is_space (rev ?d)"
  have d: "?d \<noteq> []" using a by (simp add: trim_Nil_iff)
  have hd: "\<not> is_space (hd ?d)" using d by (rule hd_dropWhile)
  have "rev ?d = takeWhile is_space (rev ?d) @ ?r" by simp
  then have "?d = rev ?r @ rev (takeWhile is_space (rev ?d))"
    by (metis rev_append rev_rev_ident)
  moreover have "rev ?r \<noteq> []" using a by (simp add: trim_def)
  ultimately have "hd ?d = hd (rev ?r)"
    by (metis hd_append2)
  with hd show ?thesis by (simp add: trim_def)
qed

lemma last_trim: "trim s \<noteq> [] \<Longrightarrow> \<not> is_space (last (trim s))"
proof -
  assume a: "trim s \<noteq> []"
  let ?r = "dropWhile is_space (rev (dropWhile is_space s))"
  have "?r \<noteq> []" using a by (simp add: trim_def)
  then have "\<not> is_space (hd ?r)" by (rule hd_dropWhile)
  moreover have "last (rev ?r) = hd ?r" using \<open>?r \<noteq> []\<close> by (simp add: last_rev)
  ultimately show ?thesis by (simp add: trim_def)
qed

lemma trim_fixed:
  "s \<noteq> [] \<Longrightarrow> \<not> is_space (hd s) \<Longrightarrow> \<not> is_space (last s) \<Longrightarrow> trim s = s"
proof -
  assume s: "s \<noteq> []" and h: "\<not> is_space (hd s)" and l: "\<not> is_space (last s)"
  have 1: "dropWhile is_space s = s" using s h by (cases s) simp_all
  have "rev s \<noteq> []" "\<not> is_space (hd (rev s))" using s l by (simp_all add: hd_rev)
  then have 2: "dropWhile is_space (rev s) = rev s" by (cases "rev s") simp_all
  show ?thesis by (simp add: trim_def 1 2)
qed

lemma trim_append_spaces:
  assumes "\<forall>c\<in>set ws. is_space c" "m \<noteq> []" "\<not> is_space (hd m)" "\<not> is_space (last m)"
  shows "trim (m @ ws) = m"
proof -
  have 1: "dropWhile is_space (m @ ws) = m @ ws"
    using assms(2,3) by (cases m) simp_all
  have "rev m \<noteq> []" "\<not> is_space (hd (rev m))"
    using assms(2,4) by (simp_all add: hd_rev)
  then have 2: "dropWhile is_space (rev m) = rev m"
    by (cases "rev m") simp_all
  have 3: "dropWhile is_space (rev ws @ rev m) = dropWhile is_space (rev m)"
    by (rule dropWhile_append2) (use assms(1) in simp)
  show ?thesis
    by (simp only: trim_def 1 rev_append 3 2 rev_rev_ident)
qed

lemma trim_blank: "list_all is_space s \<Longrightarrow> trim s = []"
  by (simp add: trim_Nil_iff list_all_iff)

lemma trim_drop_leading: "list_all is_space pre \<Longrightarrow> trim (pre @ s) = trim s"
proof -
  assume "list_all is_space pre"
  then have "dropWhile is_space (pre @ s) = dropWhile is_space s"
    by (intro dropWhile_append2) (simp add: list_all_iff)
  then show ?thesis by (simp only: trim_def)
qed

lemma trim_pad:
  assumes "list_all is_space pre" "list_all is_space post" "tidy core"
  shows "trim (pre @ core @ post) = core"
proof -
  have "trim (core @ post) = core"
    using assms(2,3) by (intro trim_append_spaces) (simp_all add: tidy_def list_all_iff)
  with trim_drop_leading [OF assms(1), of "core @ post"] show ?thesis by simp
qed

lemma strip_leading_dropWhile: "strip_leading s = dropWhile is_space s"
  by (induction s) simp_all

lemma strip_trailing_blank: "list_all is_space s \<Longrightarrow> strip_trailing s = []"
  by (cases s) simp_all

lemma strip_trailing_rev: "strip_trailing s = rev (dropWhile is_space (rev s))"
proof (induction s)
  case Nil
  then show ?case by simp
next
  case (Cons c cs)
  show ?case
  proof (cases "list_all is_space cs")
    case True
    then have "dropWhile is_space (rev cs @ [c]) = dropWhile is_space [c]"
      by (intro dropWhile_append2) (simp add: list_all_iff)
    with True show ?thesis
      by (simp add: strip_trailing_blank)
  next
    case False
    then have "dropWhile is_space (rev cs @ [c]) = dropWhile is_space (rev cs) @ [c]"
      by (simp add: dropWhile_append list_all_iff)
    with False Cons show ?thesis
      by simp
  qed
qed

lemma trim_spec: "trim s = spec_trim s"
  by (simp add: trim_def spec_trim_def strip_leading_dropWhile strip_trailing_rev)

section \<open>Properties of the sanitizer\<close>

lemma sanitize_loop_map_filter:
  "sanitize_loop ns ms safe = safe @ List.map_filter (sanitize_entry ns) ms"
  by (induction ms arbitrary: safe) (simp_all split: option.split)

lemma length_map_filter_le: "length (List.map_filter f xs) \<le> length xs"
  by (induction xs) (simp_all split: option.split)

lemma set_map_filter_iff: "t \<in> set (List.map_filter f xs) \<longleftrightarrow> (\<exists>x\<in>set xs. f x = Some t)"
  by (induction xs) (auto split: option.split)

lemma map_filter_replicate:
  "List.map_filter f (replicate n x) = (case f x of None \<Rightarrow> [] | Some y \<Rightarrow> replicate n y)"
  by (induction n) (simp_all split: option.split)

lemma length_slice_last: "length (slice_last n xs) \<le> n"
  by (simp add: slice_last_def)

lemma slice_last_rev_take: "slice_last n xs = rev (take n (rev xs))"
  by (simp add: slice_last_def rev_take)

lemma sanitize_entry_content:
  "sanitize_entry ns m = Some t \<Longrightarrow> content t \<noteq> [] \<and> length (content t) \<le> MAX_CHARS"
  by (auto simp: sanitize_entry_def Let_def MAX_CHARS_def split: if_splits option.splits)

lemma sanitize_entry_role:
  "sanitize_entry ns m = Some t \<Longrightarrow> role t \<in> {''user'', ''assistant'', ''system''}"
  by (auto simp: sanitize_entry_def Let_def pick_role_def allowedRoles_def
      split: if_splits option.splits jsval.splits)

lemma sanitizeMessages_array:
  "sanitizeMessages ns (JArr xs) = List.map_filter (sanitize_entry ns) (slice_last MAX_MESSAGES xs)"
  by (simp add: sanitizeMessages_def sanitize_loop_map_filter)

lemma sanitizeMessages_length: "length (sanitizeMessages ns raw) \<le> 50"
proof (cases raw)
  case (JArr xs)
  have "length (List.map_filter (sanitize_entry ns) (slice_last MAX_MESSAGES xs)) \<le> MAX_MESSAGES"
    using length_map_filter_le [of "sanitize_entry ns" "slice_last MAX_MESSAGES xs"]
      length_slice_last [of MAX_MESSAGES xs] by linarith
  with JArr show ?thesis
    by (simp add: sanitizeMessages_array MAX_MESSAGES_def)
qed (simp_all add: sanitizeMessages_def)

lemma sanitizeMessages_member:
  "t \<in> set (sanitizeMessages ns raw) \<Longrightarrow> \<exists>m. sanitize_entry ns m = Some t"
  by (cases raw) (auto simp: sanitizeMessages_def sanitize_loop_map_filter set_map_filter_iff)

lemma sanitizeMessages_content:
  "t \<in> set (sanitizeMessages ns raw) \<Longrightarrow> content t \<noteq> [] \<and> length (content t) \<le> 4000"
  using sanitizeMessages_member [of t ns raw] sanitize_entry_content [of ns _ t]
  by (auto simp: MAX_CHARS_def)

lemma pick_role_spec: "pick_role v = spec_role v"
  by (cases v) (auto simp: pick_role_def spec_role_def allowedRoles_def)

lemma content_text_spec: "content_text ns v = spec_content ns v"
proof (cases v)
  case (JObj kvs)
  have "(map_of kvs ''toString'' = None) = (''toString'' \<notin> fst ` set kvs)"
    by (rule map_of_eq_None_iff)
  then show ?thesis
    by (auto simp: JObj content_text_def spec_content_def split: option.split)
qed (simp_all add: content_text_def spec_content_def)

lemma sanitize_entry_spec: "sanitize_entry ns m = spec_entry ns m"
proof (cases m)
  case (JObj kvs)
  show ?thesis
    unfolding JObj sanitize_entry_def spec_entry_def pick_role_spec content_text_spec
    by (simp add: Let_def MAX_CHARS_def trim_spec split: option.split)
qed (simp_all add: sanitize_entry_def spec_entry_def content_text_def)

lemma sanitizeMessages_spec: "sanitizeMessages ns raw = spec_sanitize ns raw"
proof (cases raw)
  case (JArr xs)
  have "sanitize_entry ns = spec_entry ns"
    by (rule ext) (rule sanitize_entry_spec)
  then show ?thesis
    by (simp add: JArr sanitizeMessages_array spec_sanitize_def slice_last_rev_take
        MAX_MESSAGES_def)
qed (simp_all add: sanitizeMessages_def spec_sanitize_def)

lemma sanitize_entry_padded:
  assumes "map_of kvs ''content'' = Some (JStr (pre @ core @ post))"
    and "list_all is_space pre" "list_all is_space post" "tidy core"
  shows "sanitize_entry ns (JObj kvs) =
     Some \<lparr>role = spec_role (js_get (JObj kvs) ''role''), content = take 4000 core\<rparr>"
proof -
  have t: "trim (pre @ core @ post) = core"
    using assms(2-4) by (rule trim_pad)
  have n: "core \<noteq> []"
    using assms(4) by (simp add: tidy_def)
  show ?thesis
    using n by (simp add: sanitize_entry_def content_text_def assms(1) t Let_def MAX_CHARS_def
        pick_role_spec)
qed

lemma sanitize_entry_blank:
  assumes "map_of kvs ''content'' = Some (JStr s)" "list_all is_space s"
  shows "sanitize_entry ns (JObj kvs) = None"
  by (simp add: sanitize_entry_def content_text_def assms(1) trim_blank [OF assms(2)])

lemma sanitizeMessages_last_fifty:
  assumes "length recent = 50"
  shows "sanitizeMessages ns (JArr (older @ recent)) = sanitizeMessages ns (JArr recent)"
  using assms by (simp add: sanitizeMessages_def slice_last_def MAX_MESSAGES_def)

lemma is_space_codes: "is_space c = (of_char c \<in> {9, 10, 11, 12, 13, 32, 160 :: nat})"
proof -
  have "(of_char c = (of_char d :: nat)) = (c = d)" for d
    by simp
  from this [of "CHR 0x09"] this [of "CHR 0x0A"] this [of "CHR 0x0B"] this [of "CHR 0x0C"]
    this [of "CHR 0x0D"] this [of "CHR 0x20"] this [of "CHR 0xA0"]
  show ?thesis
    by (simp add: is_space_def)
qed

text \<open>
  Claim C6. On every input, \<open>sanitizeMessages\<close> is the sanitizer of the specification:
  it works on the last 50 entries, skips an entry that is no structured record, coerces
  the role to \<open>user\<close> when it is none of \<open>system\<close>, \<open>user\<close>, \<open>assistant\<close>, turns a number or a
  boolean into text, drops the entry when the content is \<open>null\<close>, \<open>undefined\<close> or cannot
  be converted, trims, drops the entry when the trimmed text is empty, and keeps the first
  4000 characters of the trimmed text. Trimming is said on its own terms as well: content
  that is white space, then a text that neither starts nor ends with white space, then
  white space gives the first 4000 characters of that text; content that is white space
  only drops the entry; white space is tab, line feed, vertical tab, form feed, carriage
  return, space and no-break space. And entries before the last 50 change nothing.
\<close>

theorem sanitizeMessages_refines_spec:
  "sanitizeMessages ns raw = spec_sanitize ns raw
   \<and> (map_of kvs ''content'' = Some (JStr (pre @ core @ post))
        \<and> list_all is_space pre \<and> list_all is_space post \<and> tidy core \<longrightarrow>
      sanitize_entry ns (JObj kvs) =
        Some \<lparr>role = spec_role (js_get (JObj kvs) ''role''), content = take 4000 core\<rparr>)
   \<and> (map_of kvs ''content'' = Some (JStr s) \<and> list_all is_space s \<longrightarrow>
      sanitize_entry ns (JObj kvs) = None)
   \<and> is_space c = (of_char c \<in> {9, 10, 11, 12, 13, 32, 160 :: nat})
   \<and> (length recent = 50 \<longrightarrow>
      sanitizeMessages ns (JArr (older @ recent)) = sanitizeMessages ns (JArr recent))"
  using sanitizeMessages_spec [of ns raw] sanitize_entry_padded [of kvs pre core post ns]
    sanitize_entry_blank [of kvs s ns] is_space_codes [of c]
    sanitizeMessages_last_fifty [of recent ns older]
  by blast

lemma long_content_trimmed: "spec_trim long_content = replicate 4001 (CHR ''y'')"
proof -
  have "trim ('' '' @ replicate 4001 (CHR ''y'') @ [CHR 0x09, CHR 0xA0]) = replicate 4001 (CHR ''y'')"
    by (intro trim_pad) (simp_all add: is_space_def tidy_def)
  then show ?thesis
    by (simp add: long_content_def trim_spec)
qed

lemma padded_contents_spec:
  "spec_sanitize ns padded_contents =
     [\<lparr>role = ''system'', content = ''pad ded''\<rparr>,
      \<lparr>role = ''assistant'', content = replicate 4000 (CHR ''y'')\<rparr>]"
proof -
  have 1: "spec_entry ns (JObj [(''role'', JStr ''system''), (''content'', JStr padded_text)])
      = Some \<lparr>role = ''system'', content = ''pad ded''\<rparr>"
    by code_simp
  have 2: "spec_entry ns (JObj [(''role'', JStr ''user''), (''content'', JStr blank_text)]) = None"
    by code_simp
  have 3: "spec_entry ns (JObj [(''role'', JStr ''assistant''), (''content'', JStr long_content)])
      = Some \<lparr>role = ''assistant'', content = replicate 4000 (CHR ''y'')\<rparr>"
    by (simp add: spec_entry_def spec_content_def long_content_trimmed spec_role_def)
  show ?thesis
    by (simp add: spec_sanitize_def padded_contents_def 1 2 3)
qed

lemma overfull_list_spec:
  "spec_sanitize ns overfull_list = replicate 50 \<lparr>role = ''user'', content = ''a''\<rparr>"
proof -
  have e: "spec_entry ns (JObj [(''role'', JStr ''user''), (''content'', JStr ''a'')])
      = Some \<lparr>role = ''user'', content = ''a''\<rparr>"
    by code_simp
  show ?thesis
    by (simp add: spec_sanitize_def overfull_list_def map_filter_replicate e)
qed

text \<open>
  Three lists. One with an entry that is no record, a number, a boolean under an unknown
  role, an array, an object that cannot be converted, a plain object, an entry without
  content and an array in place of a record. One with content inside white space (tab,
  space, no-break space, line feed), content of white space only, and content of 4001
  characters inside white space, cut to 4000. One of 51 entries, whose first is left out.
\<close>

theorem sanitizeMessages_refines_spec_witness:
  "sanitizeMessages integer_text mixed_contents =
     [\<lparr>role = ''assistant'', content = ''42''\<rparr>,
      \<lparr>role = ''user'', content = ''false''\<rparr>,
      \<lparr>role = ''user'', content = ''-1,,x''\<rparr>,
      \<lparr>role = ''user'', content = ''[object Object]''\<rparr>]
   \<and> sanitizeMessages integer_text padded_contents =
     [\<lparr>role = ''system'', content = ''pad ded''\<rparr>,
      \<lparr>role = ''assistant'', content = replicate 4000 (CHR ''y'')\<rparr>]
   \<and> length (replicate 4000 (CHR ''y'')) = 4000
   \<and> sanitizeMessages integer_text overfull_list =
     replicate 50 \<lparr>role = ''user'', content = ''a''\<rparr>"
proof -
  have "spec_sanitize integer_text mixed_contents =
     [\<lparr>role = ''assistant'', content = ''42''\<rparr>,
      \<lparr>role = ''user'', content = ''false''\<rparr>,
      \<lparr>role = ''user'', content = ''-1,,x''\<rparr>,
      \<lparr>role = ''user'', content = ''[object Object]''\<rparr>]"
    by code_simp
  with sanitizeMessages_refines_spec [where ns = integer_text and raw = mixed_contents]
    sanitizeMessages_refines_spec [where ns = integer_text and raw = padded_contents]
    sanitizeMessages_refines_spec [where ns = integer_text and raw = overfull_list]
  show ?thesis
    by (simp add: padded_contents_spec overfull_list_spec)
qed

section \<open>Properties of the composed request\<close>

lemma clampNumber_spec: "clampNumber v (Fin lo) (Fin hi) = spec_clamp lo hi v"
proof (cases v)
  case (JNum x)
  then show ?thesis
    by (cases x) (simp_all add: clampNumber_def spec_clamp_def)
qed (simp_all add: clampNumber_def spec_clamp_def)

lemma spec_clamp_range:
  "lo \<le> hi \<Longrightarrow>
   spec_clamp lo hi v = JUndefined \<or> (\<exists>q. spec_clamp lo hi v = JNum (Fin q) \<and> lo \<le> q \<and> q \<le> hi)"
  by (auto simp: spec_clamp_def split: jsval.splits jsnum.splits)

lemma RequestSanitizer_Inr:
  assumes "RequestSanitizer ns env body = Inr p"
  shows "safeMessages ns body \<noteq> []"
    and "messages p = finalMessages env (safeMessages ns body)"
    and "temperature p = clampNumber (js_get (request_body body) ''temperature'') (Fin 0) (Fin 1)"
    and "top_p p = clampNumber (js_get (request_body body) ''top_p'') (Fin 0) (Fin 1)"
    and "max_tokens p = clampNumber (js_get (request_body body) ''max_tokens'') (Fin 1) (Fin 4096)"
  using assms by (auto simp: RequestSanitizer_def split: if_splits)

lemma RequestSanitizer_accepts:
  "safeMessages ns body \<noteq> [] \<Longrightarrow> \<exists>p. RequestSanitizer ns env body = Inr p"
  by (simp add: RequestSanitizer_def)

text \<open>
  Claim C7. \<open>clampNumber\<close> with the bounds \<open>lo\<close> and \<open>hi\<close> is the clamping of the
  specification: a number below \<open>lo\<close> becomes \<open>lo\<close>, a number above \<open>hi\<close> becomes \<open>hi\<close>,
  a number in between stays, and \<open>NaN\<close> or a value that is no number gives \<open>undefined\<close>.
  Whenever a message survives, the request is composed whatever the three options are, no
  option raises an error, and in the payload \<open>temperature\<close> and \<open>top_p\<close> are each the
  option clamped into [0, 1] and \<open>max_tokens\<close> the option clamped into [1, 4096], each
  from its own field only: absent or a number inside the range.
\<close>

theorem numeric_options_clamped:
  "clampNumber v (Fin lo) (Fin hi) = spec_clamp lo hi v
   \<and> (safeMessages ns body \<noteq> [] \<longrightarrow>
        (\<exists>p. RequestSanitizer ns env body = Inr p
          \<and> temperature p = spec_clamp 0 1 (js_get (request_body body) ''temperature'')
          \<and> top_p p = spec_clamp 0 1 (js_get (request_body body) ''top_p'')
          \<and> max_tokens p = spec_clamp 1 4096 (js_get (request_body body) ''max_tokens'')
          \<and> (temperature p = JUndefined \<or> (\<exists>q. temperature p = JNum (Fin q) \<and> 0 \<le> q \<and> q \<le> 1))
          \<and> (top_p p = JUndefined \<or> (\<exists>q. top_p p = JNum (Fin q) \<and> 0 \<le> q \<and> q \<le> 1))
          \<and> (max_tokens p = JUndefined \<or> (\<exists>q. max_tokens p = JNum (Fin q) \<and> 1 \<le> q \<and> q \<le> 4096))))"
proof (intro conjI impI)
  assume "safeMessages ns body \<noteq> []"
  then obtain p where p: "RequestSanitizer ns env body = Inr p"
    using RequestSanitizer_accepts by blast
  show "\<exists>p. RequestSanitizer ns env body = Inr p
          \<and> temperature p = spec_clamp 0 1 (js_get (request_body body) ''temperature'')
          \<and> top_p p = spec_clamp 0 1 (js_get (request_body body) ''top_p'')
          \<and> max_tokens p = spec_clamp 1 4096 (js_get (request_body body) ''max_tokens'')
          \<and> (temperature p = JUndefined \<or> (\<exists>q. temperature p = JNum (Fin q) \<and> 0 \<le> q \<and> q \<le> 1))
          \<and> (top_p p = JUndefined \<or> (\<exists>q. top_p p = JNum (Fin q) \<and> 0 \<le> q \<and> q \<le> 1))
          \<and> (max_tokens p = JUndefined \<or> (\<exists>q. max_tokens p = JNum (Fin q) \<and> 1 \<le> q \<and> q \<le> 4096))"
    using p RequestSanitizer_Inr(3-5) [OF p]
      spec_clamp_range [of 0 1 "js_get (request_body body) ''temperature''"]
      spec_clamp_range [of 0 1 "js_get (request_body body) ''top_p''"]
      spec_clamp_range [of 1 4096 "js_get (request_body body) ''max_tokens''"]
    by (simp add: clampNumber_spec)
qed (rule clampNumber_spec)

lemma sample_options_safe:
  "safeMessages ns sample_options_body = [\<lparr>role = ''user'', content = ''hi''\<rparr>]"
  by code_simp

text \<open>
  At the body \<open>{ messages: [{ role: 'user', content: 'hi' }], temperature: 2,
  top_p: '0.5', max_tokens: 0.5 }\<close> the payload has \<open>temperature\<close> 1, no \<open>top_p\<close> and
  \<open>max_tokens\<close> 1.
\<close>

theorem numeric_options_clamped_witness:
  "safeMessages integer_text sample_options_body \<noteq> []
   \<and> (\<exists>p. RequestSanitizer integer_text None sample_options_body = Inr p
        \<and> temperature p = JNum (Fin 1) \<and> top_p p = JUndefined \<and> max_tokens p = JNum (Fin 1))"
proof -
  have s: "safeMessages integer_text sample_options_body \<noteq> []"
    by (simp add: sample_options_safe)
  have g: "js_get (request_body sample_options_body) ''temperature'' = JNum (Fin 2)"
    "js_get (request_body sample_options_body) ''top_p'' = JStr ''0.5''"
    "js_get (request_body sample_options_body) ''max_tokens'' = JNum (Fin (1 / 2))"
    by (simp_all add: request_body_def sample_options_body_def)
  from numeric_options_clamped [of JNull 0 1 integer_text sample_options_body None] s
  show ?thesis
    by (auto simp: g spec_clamp_def)
qed

lemma length_suggestionInstructions: "length suggestionInstructions = 422"
  by (simp add: suggestionInstructions_def)

lemma length_baseSystemPrompt_default: "length baseSystemPrompt_default = 130"
  by (simp add: baseSystemPrompt_default_def)

lemma length_defaultSystemPrompt:
  "length (defaultSystemPrompt env) = length (baseSystemPrompt env) + 424"
  by (simp add: defaultSystemPrompt_def length_suggestionInstructions)

lemma finalMessages_cases:
  "finalMessages env safe =
     (if \<exists>t\<in>set safe. role t = ''system'' then safe
      else \<lparr>role = ''system'', content = defaultSystemPrompt env\<rparr> # safe)"
  by (simp add: finalMessages_def list_ex_iff)

lemma safeMessages_length: "length (safeMessages ns body) \<le> 50"
  by (simp add: safeMessages_def sanitizeMessages_length)

lemma safeMessages_content:
  "t \<in> set (safeMessages ns body) \<Longrightarrow> content t \<noteq> [] \<and> length (content t) \<le> 4000"
  unfolding safeMessages_def by (rule sanitizeMessages_content)

lemma fifty_user_turns_safe:
  "safeMessages ns fifty_user_turns = replicate 50 \<lparr>role = ''user'', content = ''a''\<rparr>"
proof -
  have e: "sanitize_entry ns (JObj [(''role'', JStr ''user''), (''content'', JStr ''a'')])
      = Some \<lparr>role = ''user'', content = ''a''\<rparr>"
    by code_simp
  show ?thesis
    by (simp add: safeMessages_def fifty_user_turns_def request_body_def sanitizeMessages_array
        slice_last_def MAX_MESSAGES_def map_filter_replicate e)
qed

lemma fifty_user_turns_request:
  "RequestSanitizer ns env fifty_user_turns =
     Inr \<lparr>model = ''openai/gpt-4o-mini'',
          messages = \<lparr>role = ''system'', content = defaultSystemPrompt env\<rparr>
                     # replicate 50 \<lparr>role = ''user'', content = ''a''\<rparr>,
          temperature = JUndefined, top_p = JUndefined, max_tokens = JUndefined\<rparr>"
proof -
  have g: "js_get (request_body fifty_user_turns) k =
      (if k = ''messages'' then
         JArr (replicate 50 (JObj [(''role'', JStr ''user''), (''content'', JStr ''a'')]))
       else JUndefined)" for k
    by (simp add: request_body_def fifty_user_turns_def)
  show ?thesis
    by (simp add: RequestSanitizer_def fifty_user_turns_safe finalMessages_cases g
        selectedModel_def clampNumber_def)
qed

text \<open>
  Claim C1 says that the message sequence of the sanitized request, the synthesized system
  turn included, holds at most 50 turns, each with content of at most 4000 characters. It
  fails on both counts. Fifty user turns \<open>{ role: 'user', content: 'a' }\<close> all survive,
  none has role \<open>system\<close>, and the system turn is put before them: the request holds 51
  turns. And the content of the synthesized turn is not cut: with a \<open>SYSTEM_PROMPT\<close> of
  4000 characters in the environment it has 4424 characters.
\<close>

theorem fifty_turns_become_fifty_one:
  "RequestSanitizer integer_text None fifty_user_turns =
     Inr \<lparr>model = ''openai/gpt-4o-mini'',
          messages = \<lparr>role = ''system'', content = defaultSystemPrompt None\<rparr>
                     # replicate 50 \<lparr>role = ''user'', content = ''a''\<rparr>,
          temperature = JUndefined, top_p = JUndefined, max_tokens = JUndefined\<rparr>
   \<and> length (\<lparr>role = ''system'', content = defaultSystemPrompt None\<rparr>
              # replicate 50 \<lparr>role = ''user'', content = ''a''\<rparr>) = 51
   \<and> RequestSanitizer integer_text (Some long_prompt) fifty_user_turns =
     Inr \<lparr>model = ''openai/gpt-4o-mini'',
          messages = \<lparr>role = ''system'', content = defaultSystemPrompt (Some long_prompt)\<rparr>
                     # replicate 50 \<lparr>role = ''user'', content = ''a''\<rparr>,
          temperature = JUndefined, top_p = JUndefined, max_tokens = JUndefined\<rparr>
   \<and> length (defaultSystemPrompt (Some long_prompt)) = 4424"
proof -
  have "length (defaultSystemPrompt (Some long_prompt)) = 4424"
    by (simp add: length_defaultSystemPrompt baseSystemPrompt_def long_prompt_def)
  then show ?thesis
    by (simp add: fifty_user_turns_request)
qed

text \<open>
  Claim C1, amended. For every input the turns that survive sanitization are at most 50
  and each has content of at most 4000 characters. The message sequence of the request is
  these turns, with one synthesized system turn before them when none of them has role
  \<open>system\<close>: at most 51 turns, at most 50 when a surviving turn has role \<open>system\<close>. Every
  turn but the synthesized one has content of at most 4000 characters; the content of the
  synthesized turn is 424 characters longer than the base system prompt, so every turn is
  within 4000 characters when the base prompt has at most 3576 (the built-in one has 130).
\<close>

theorem request_message_bounds:
  assumes "RequestSanitizer ns env body = Inr p"
  shows "length (safeMessages ns body) \<le> 50
       \<and> (\<forall>t\<in>set (safeMessages ns body). length (content t) \<le> 4000)
       \<and> (messages p = safeMessages ns body
           \<or> messages p = \<lparr>role = ''system'', content = defaultSystemPrompt env\<rparr> # safeMessages ns body)
       \<and> length (messages p) \<le> 51
       \<and> ((\<exists>t\<in>set (safeMessages ns body). role t = ''system'') \<longrightarrow> length (messages p) \<le> 50)
       \<and> (\<forall>t\<in>set (messages p).
             length (content t) \<le> 4000 \<or> t = \<lparr>role = ''system'', content = defaultSystemPrompt env\<rparr>)
       \<and> length (defaultSystemPrompt env) = length (baseSystemPrompt env) + 424
       \<and> (length (baseSystemPrompt env) \<le> 3576 \<longrightarrow> (\<forall>t\<in>set (messages p). length (content t) \<le> 4000))"
proof -
  let ?safe = "safeMessages ns body"
  let ?sys = "\<lparr>role = ''system'', content = defaultSystemPrompt env\<rparr>"
  have m: "messages p = finalMessages env ?safe"
    using RequestSanitizer_Inr(2) [OF assms] .
  have len: "length ?safe \<le> 50"
    by (rule safeMessages_length)
  have con: "\<forall>t\<in>set ?safe. length (content t) \<le> 4000"
    using safeMessages_content by blast
  have alt: "messages p = ?safe \<or> messages p = ?sys # ?safe"
    by (simp add: m finalMessages_cases)
  have l51: "length (messages p) \<le> 51"
    using alt len by auto
  have l50: "(\<exists>t\<in>set ?safe. role t = ''system'') \<longrightarrow> length (messages p) \<le> 50"
    using len by (simp add: m finalMessages_cases)
  have each: "\<forall>t\<in>set (messages p). length (content t) \<le> 4000 \<or> t = ?sys"
    using alt con by auto
  have dl: "length (defaultSystemPrompt env) = length (baseSystemPrompt env) + 424"
    by (rule length_defaultSystemPrompt)
  have small: "length (baseSystemPrompt env) \<le> 3576 \<longrightarrow> (\<forall>t\<in>set (messages p). length (content t) \<le> 4000)"
  proof
    assume b: "length (baseSystemPrompt env) \<le> 3576"
    show "\<forall>t\<in>set (messages p). length (content t) \<le> 4000"
    proof
      fix t assume "t \<in> set (messages p)"
      with each have "length (content t) \<le> 4000 \<or> t = ?sys" by blast
      then show "length (content t) \<le> 4000"
        using b dl by auto
    qed
  qed
  from len con alt l51 l50 each dl small show ?thesis
    by blast
qed

lemma system_first_safe:
  "safeMessages ns system_first_body =
     [\<lparr>role = ''system'', content = ''Be brief.''\<rparr>, \<lparr>role = ''user'', content = ''hi''\<rparr>]"
  by code_simp

text \<open>
  The bounds at the fifty user turns, with the built-in base prompt, and at a body whose
  first turn is a system turn.
\<close>

theorem request_message_bounds_witness:
  "RequestSanitizer integer_text None fifty_user_turns =
     Inr \<lparr>model = ''openai/gpt-4o-mini'',
          messages = \<lparr>role = ''system'', content = defaultSystemPrompt None\<rparr>
                     # replicate 50 \<lparr>role = ''user'', content = ''a''\<rparr>,
          temperature = JUndefined, top_p = JUndefined, max_tokens = JUndefined\<rparr>
   \<and> length (safeMessages integer_text fifty_user_turns) \<le> 50
   \<and> length (\<lparr>role = ''system'', content = defaultSystemPrompt None\<rparr>
              # replicate 50 \<lparr>role = ''user'', content = ''a''\<rparr>) \<le> 51
   \<and> length (defaultSystemPrompt None) = 554
   \<and> list_all (\<lambda>t. length (content t) \<le> 4000)
         (\<lparr>role = ''system'', content = defaultSystemPrompt None\<rparr>
            # replicate 50 \<lparr>role = ''user'', content = ''a''\<rparr>)
   \<and> (\<exists>q. RequestSanitizer integer_text None system_first_body = Inr q
          \<and> length (messages q) \<le> 50)"
proof -
  have r: "RequestSanitizer integer_text None fifty_user_turns =
     Inr \<lparr>model = ''openai/gpt-4o-mini'',
          messages = \<lparr>role = ''system'', content = defaultSystemPrompt None\<rparr>
                     # replicate 50 \<lparr>role = ''user'', content = ''a''\<rparr>,
          temperature = JUndefined, top_p = JUndefined, max_tokens = JUndefined\<rparr>"
    by (rule fifty_user_turns_request)
  have b: "length (baseSystemPrompt None) \<le> 3576"
    by (simp add: baseSystemPrompt_def length_baseSystemPrompt_default)
  from request_message_bounds [OF r] r b
  have 1: "length (safeMessages integer_text fifty_user_turns) \<le> 50
   \<and> length (\<lparr>role = ''system'', content = defaultSystemPrompt None\<rparr>
              # replicate 50 \<lparr>role = ''user'', content = ''a''\<rparr>) \<le> 51
   \<and> length (defaultSystemPrompt None) = 554
   \<and> list_all (\<lambda>t. length (content t) \<le> 4000)
         (\<lparr>role = ''system'', content = defaultSystemPrompt None\<rparr>
            # replicate 50 \<lparr>role = ''user'', content = ''a''\<rparr>)"
    by (simp add: baseSystemPrompt_def length_baseSystemPrompt_default list_all_iff)
  obtain q where q: "RequestSanitizer integer_text None system_first_body = Inr q"
    using RequestSanitizer_accepts [of integer_text system_first_body None]
    by (auto simp: system_first_safe)
  have "\<exists>t\<in>set (safeMessages integer_text system_first_body). role t = ''system''"
    by (simp add: system_first_safe)
  with request_message_bounds [OF q]
  have "length (messages q) \<le> 50"
    by blast
  with q have 2: "\<exists>q. RequestSanitizer integer_text None system_first_body = Inr q
          \<and> length (messages q) \<le> 50"
    by blast
  from r 1 2 show ?thesis
    by blast
qed

text \<open>
  Claim C3. Let the request be composed, so that some turn survives. When no surviving
  turn has role \<open>system\<close>, the first turn of the output has role \<open>system\<close>, its content is
  the base system prompt, a blank line and the fixed formatting instruction, and the
  surviving turns follow it. When a surviving turn has role \<open>system\<close>, nothing is injected:
  the output is the surviving turns. In both cases the surviving turns are the sanitized
  entries of the last 50 supplied ones, in the order supplied and one for each entry that
  is not dropped.
\<close>

theorem system_turn_composition:
  assumes "RequestSanitizer ns env body = Inr p"
  shows "((\<forall>t\<in>set (safeMessages ns body). role t \<noteq> ''system'') \<longrightarrow>
            messages p =
              \<lparr>role = ''system'',
               content = baseSystemPrompt env @ [CHR 0x0A, CHR 0x0A] @ suggestionInstructions\<rparr>
              # safeMessages ns body
            \<and> role (hd (messages p)) = ''system'')
       \<and> ((\<exists>t\<in>set (safeMessages ns body). role t = ''system'') \<longrightarrow>
            messages p = safeMessages ns body)
       \<and> (\<exists>xs. js_get (request_body body) ''messages'' = JArr xs
            \<and> safeMessages ns body = List.map_filter (sanitize_entry ns) (slice_last 50 xs))"
proof -
  have m: "messages p = finalMessages env (safeMessages ns body)"
    using RequestSanitizer_Inr(2) [OF assms] .
  have ne: "safeMessages ns body \<noteq> []"
    using RequestSanitizer_Inr(1) [OF assms] .
  have arr: "\<exists>xs. js_get (request_body body) ''messages'' = JArr xs
            \<and> safeMessages ns body = List.map_filter (sanitize_entry ns) (slice_last 50 xs)"
  proof (cases "js_get (request_body body) ''messages''")
    case (JArr xs)
    then show ?thesis
      by (simp add: safeMessages_def sanitizeMessages_array MAX_MESSAGES_def)
  qed (use ne in \<open>simp_all add: safeMessages_def sanitizeMessages_def\<close>)
  show ?thesis
    using arr by (auto simp: m finalMessages_cases defaultSystemPrompt_def)
qed

text \<open>
  One body without a system turn and one that starts with a system turn (and holds an
  entry that is dropped and a role that is coerced).
\<close>

theorem system_turn_composition_witness:
  "RequestSanitizer integer_text None sample_options_body =
     Inr \<lparr>model = ''openai/gpt-4o-mini'',
          messages = [\<lparr>role = ''system'',
                       content = baseSystemPrompt_default @ [CHR 0x0A, CHR 0x0A] @ suggestionInstructions\<rparr>,
                      \<lparr>role = ''user'', content = ''hi''\<rparr>],
          temperature = JNum (Fin 1), top_p = JUndefined, max_tokens = JNum (Fin 1)\<rparr>
   \<and> RequestSanitizer integer_text None system_first_body =
     Inr \<lparr>model = ''openai/gpt-4o-mini'',
          messages = [\<lparr>role = ''system'', content = ''Be brief.''\<rparr>,
                      \<lparr>role = ''user'', content = ''hi''\<rparr>],
          temperature = JUndefined, top_p = JUndefined, max_tokens = JUndefined\<rparr>"
proof -
  obtain p where p: "RequestSanitizer integer_text None sample_options_body = Inr p"
    using RequestSanitizer_accepts [of integer_text sample_options_body None]
    by (auto simp: sample_options_safe)
  obtain q where q: "RequestSanitizer integer_text None system_first_body = Inr q"
    using RequestSanitizer_accepts [of integer_text system_first_body None]
    by (auto simp: system_first_safe)
  have mp: "messages p = [\<lparr>role = ''system'',
                       content = baseSystemPrompt_default @ [CHR 0x0A, CHR 0x0A] @ suggestionInstructions\<rparr>,
                      \<lparr>role = ''user'', content = ''hi''\<rparr>]"
    using system_turn_composition [OF p]
    by (simp add: sample_options_safe baseSystemPrompt_def)
  have mq: "messages q = [\<lparr>role = ''system'', content = ''Be brief.''\<rparr>,
                      \<lparr>role = ''user'', content = ''hi''\<rparr>]"
    using system_turn_composition [OF q]
    by (simp add: system_first_safe)
  have gp: "js_get (request_body sample_options_body) ''temperature'' = JNum (Fin 2)"
    "js_get (request_body sample_options_body) ''top_p'' = JStr ''0.5''"
    "js_get (request_body sample_options_body) ''max_tokens'' = JNum (Fin (1 / 2))"
    "js_get (request_body sample_options_body) ''model'' = JUndefined"
    by (simp_all add: request_body_def sample_options_body_def)
  have gq: "js_get (request_body system_first_body) k =
      (if k = ''messages'' then js_get system_first_body ''messages'' else JUndefined)" for k
    by (simp add: request_body_def system_first_body_def)
  have "p = \<lparr>model = ''openai/gpt-4o-mini'',
          messages = [\<lparr>role = ''system'',
                       content = baseSystemPrompt_default @ [CHR 0x0A, CHR 0x0A] @ suggestionInstructions\<rparr>,
                      \<lparr>role = ''user'', content = ''hi''\<rparr>],
          temperature = JNum (Fin 1), top_p = JUndefined, max_tokens = JNum (Fin 1)\<rparr>"
    using p mp
    by (auto simp: RequestSanitizer_def gp selectedModel_def clampNumber_def split: if_splits)
  moreover have "q = \<lparr>model = ''openai/gpt-4o-mini'',
          messages = [\<lparr>role = ''system'', content = ''Be brief.''\<rparr>,
                      \<lparr>role = ''user'', content = ''hi''\<rparr>],
          temperature = JUndefined, top_p = JUndefined, max_tokens = JUndefined\<rparr>"
    using q mq
    by (auto simp: RequestSanitizer_def gq selectedModel_def clampNumber_def split: if_splits)
  ultimately show ?thesis
    using p q by simp
qed

lemma empty_messages_safe: "safeMessages ns empty_messages_body = []"
  by code_simp

lemma blank_message_safe: "safeMessages ns blank_message_body = []"
  by code_simp

lemma selectedModel_spec: "selectedModel m = spec_model m"
proof (cases m)
  case (JStr s)
  have "(trim s = []) = list_all is_space s"
    by (simp add: trim_Nil_iff list_all_iff)
  then show ?thesis
    by (simp add: JStr selectedModel_def spec_model_def trim_spec)
qed (simp_all add: selectedModel_def spec_model_def)

lemma finalMessages_spec: "finalMessages env safe = spec_compose env safe"
proof -
  have "(\<exists>t\<in>set safe. role t = ''system'') = (''system'' \<in> role ` set safe)"
    by force
  then show ?thesis
    by (simp add: finalMessages_cases spec_compose_def defaultSystemPrompt_def)
qed

lemma safeMessages_spec:
  "safeMessages ns body = spec_sanitize ns (js_get (request_body body) ''messages'')"
  by (simp add: safeMessages_def sanitizeMessages_spec)

lemma RequestSanitizer_payload:
  assumes "spec_sanitize ns (js_get (request_body body) ''messages'') \<noteq> []"
  shows "RequestSanitizer ns env body =
     Inr \<lparr>model = spec_model (js_get (request_body body) ''model''),
          messages = spec_compose env (spec_sanitize ns (js_get (request_body body) ''messages'')),
          temperature = spec_clamp 0 1 (js_get (request_body body) ''temperature''),
          top_p = spec_clamp 0 1 (js_get (request_body body) ''top_p''),
          max_tokens = spec_clamp 1 4096 (js_get (request_body body) ''max_tokens'')\<rparr>"
  using assms
  by (simp add: RequestSanitizer_def safeMessages_spec selectedModel_spec finalMessages_spec
      clampNumber_spec)

lemma request_body_falsy: "falsy body \<Longrightarrow> safeMessages ns body = []"
  by (simp add: safeMessages_def request_body_def sanitizeMessages_def)

text \<open>
  Claim C4. \<open>RequestSanitizer\<close> answers with the 400 validation error exactly when no
  entry survives sanitization, it rejects in no other case, and whenever an entry survives
  the request is composed, whatever the other fields of the body are. Every other field
  is then normalized, in the specification's words: the surviving turns are the sanitized
  entries, with the system turn before them when none has role \<open>system\<close>; the model is the
  fixed identifier unless the field is text that is not blank, and is trimmed then; each
  numeric option is absent or clamped into its range. The empty list, the single turn with
  content of three spaces and a missing body are rejected. (The handler checks the
  provider key first; with a key configured it is \<open>RequestSanitizer\<close>.)
\<close>

theorem rejects_only_when_nothing_survives:
  "(RequestSanitizer ns env body =
      Inl (400, ''Invalid request: at least one non-empty user message is required''))
     = (safeMessages ns body = [])
   \<and> (\<forall>e. RequestSanitizer ns env body = Inl e \<longrightarrow> safeMessages ns body = [])
   \<and> (safeMessages ns body \<noteq> [] \<longrightarrow> (\<exists>p. RequestSanitizer ns env body = Inr p))
   \<and> (k \<noteq> [] \<longrightarrow> api_chat ns (Some k) env body = RequestSanitizer ns env body)
   \<and> RequestSanitizer ns env empty_messages_body =
       Inl (400, ''Invalid request: at least one non-empty user message is required'')
   \<and> RequestSanitizer ns env blank_message_body =
       Inl (400, ''Invalid request: at least one non-empty user message is required'')
   \<and> safeMessages ns body = spec_sanitize ns (js_get (request_body body) ''messages'')
   \<and> (spec_sanitize ns (js_get (request_body body) ''messages'') \<noteq> [] \<longrightarrow>
        RequestSanitizer ns env body =
          Inr \<lparr>model = spec_model (js_get (request_body body) ''model''),
               messages =
                 spec_compose env (spec_sanitize ns (js_get (request_body body) ''messages'')),
               temperature = spec_clamp 0 1 (js_get (request_body body) ''temperature''),
               top_p = spec_clamp 0 1 (js_get (request_body body) ''top_p''),
               max_tokens = spec_clamp 1 4096 (js_get (request_body body) ''max_tokens'')\<rparr>)
   \<and> (falsy body \<longrightarrow>
        RequestSanitizer ns env body =
          Inl (400, ''Invalid request: at least one non-empty user message is required''))
   \<and> js_get (request_body (JObj props)) prop =
        (case map_of props prop of None \<Rightarrow> JUndefined | Some v \<Rightarrow> v)"
proof -
  have old: "(RequestSanitizer ns env body =
      Inl (400, ''Invalid request: at least one non-empty user message is required''))
     = (safeMessages ns body = [])
   \<and> (\<forall>e. RequestSanitizer ns env body = Inl e \<longrightarrow> safeMessages ns body = [])
   \<and> (safeMessages ns body \<noteq> [] \<longrightarrow> (\<exists>p. RequestSanitizer ns env body = Inr p))
   \<and> (k \<noteq> [] \<longrightarrow> api_chat ns (Some k) env body = RequestSanitizer ns env body)
   \<and> RequestSanitizer ns env empty_messages_body =
       Inl (400, ''Invalid request: at least one non-empty user message is required'')
   \<and> RequestSanitizer ns env blank_message_body =
       Inl (400, ''Invalid request: at least one non-empty user message is required'')"
    by (simp add: RequestSanitizer_def api_chat_def empty_messages_safe blank_message_safe)
  have f: "falsy body \<longrightarrow>
        RequestSanitizer ns env body =
          Inl (400, ''Invalid request: at least one non-empty user message is required'')"
    by (simp add: RequestSanitizer_def request_body_falsy)
  have g: "js_get (request_body (JObj props)) prop =
        (case map_of props prop of None \<Rightarrow> JUndefined | Some v \<Rightarrow> v)"
    by (simp add: request_body_def)
  from old f g safeMessages_spec [of ns body] RequestSanitizer_payload [of ns body env]
  show ?thesis
    by blast
qed

text \<open>
  A body whose every field but one message is malformed: the message with content \<open>true\<close>
  and a number as role becomes a user turn, the model becomes the fixed identifier,
  \<open>temperature: 'hot'\<close> becomes absent, \<open>top_p: 5\<close> becomes 1 and \<open>max_tokens: -3\<close> becomes 1.
  A body with a padded model, a number as content, \<open>NaN\<close> and an infinity. And the body
  with the blank message, rejected.
\<close>

theorem rejects_only_when_nothing_survives_witness:
  "RequestSanitizer integer_text None malformed_body =
     Inr \<lparr>model = ''openai/gpt-4o-mini'',
          messages = [\<lparr>role = ''system'',
                       content = baseSystemPrompt_default @ [CHR 0x0A, CHR 0x0A] @ suggestionInstructions\<rparr>,
                      \<lparr>role = ''user'', content = ''true''\<rparr>],
          temperature = JUndefined, top_p = JNum (Fin 1), max_tokens = JNum (Fin 1)\<rparr>
   \<and> RequestSanitizer integer_text (Some ''Be terse.'') padded_model_body =
     Inr \<lparr>model = ''my/m'',
          messages = [\<lparr>role = ''system'',
                       content = ''Be terse.'' @ [CHR 0x0A, CHR 0x0A] @ suggestionInstructions\<rparr>,
                      \<lparr>role = ''assistant'', content = ''7''\<rparr>],
          temperature = JNum (Fin (1 / 4)), top_p = JUndefined, max_tokens = JNum (Fin 4096)\<rparr>
   \<and> api_chat integer_text (Some ''key'') None malformed_body
       = RequestSanitizer integer_text None malformed_body
   \<and> RequestSanitizer integer_text None blank_message_body =
       Inl (400, ''Invalid request: at least one non-empty user message is required'')
   \<and> safeMessages integer_text blank_message_body = []"
proof -
  have m: "spec_sanitize integer_text (js_get (request_body malformed_body) ''messages'')
      = [\<lparr>role = ''user'', content = ''true''\<rparr>]"
    "spec_model (js_get (request_body malformed_body) ''model'') = ''openai/gpt-4o-mini''"
    "spec_clamp 0 1 (js_get (request_body malformed_body) ''temperature'') = JUndefined"
    "spec_clamp 0 1 (js_get (request_body malformed_body) ''top_p'') = JNum (Fin 1)"
    "spec_clamp 1 4096 (js_get (request_body malformed_body) ''max_tokens'') = JNum (Fin 1)"
    by code_simp+
  have p: "spec_sanitize integer_text (js_get (request_body padded_model_body) ''messages'')
      = [\<lparr>role = ''assistant'', content = ''7''\<rparr>]"
    "spec_model (js_get (request_body padded_model_body) ''model'') = ''my/m''"
    "spec_clamp 0 1 (js_get (request_body padded_model_body) ''temperature'') = JNum (Fin (1 / 4))"
    "spec_clamp 0 1 (js_get (request_body padded_model_body) ''top_p'') = JUndefined"
    "spec_clamp 1 4096 (js_get (request_body padded_model_body) ''max_tokens'') = JNum (Fin 4096)"
    by code_simp+
  have c: "spec_compose None [\<lparr>role = ''user'', content = ''true''\<rparr>] =
      [\<lparr>role = ''system'',
        content = baseSystemPrompt_default @ [CHR 0x0A, CHR 0x0A] @ suggestionInstructions\<rparr>,
       \<lparr>role = ''user'', content = ''true''\<rparr>]"
    "spec_compose (Some ''Be terse.'') [\<lparr>role = ''assistant'', content = ''7''\<rparr>] =
      [\<lparr>role = ''system'',
        content = ''Be terse.'' @ [CHR 0x0A, CHR 0x0A] @ suggestionInstructions\<rparr>,
       \<lparr>role = ''assistant'', content = ''7''\<rparr>]"
    by (simp_all add: spec_compose_def baseSystemPrompt_def)
  from rejects_only_when_nothing_survives
      [where ns = integer_text and env = None and body = malformed_body and k = "''key''"]
    rejects_only_when_nothing_survives
      [where ns = integer_text and env = "Some ''Be terse.''" and body = padded_model_body]
    rejects_only_when_nothing_survives
      [where ns = integer_text and env = None and body = blank_message_body]
    m p c
  show ?thesis
    by (simp add: blank_message_safe)
qed

section \<open>Properties of the classifier\<close>

text \<open>
  Claim C2. \<open>buildClientErrorFromOpenRouter\<close> is a function of the failure with no
  failing branch: it gives every failure one pair of a status code and a message. The pair
  follows the table, the first row that applies deciding: without a response, 504 and the
  timeout message when the code is \<open>ECONNABORTED\<close>, else 502 and the unreachable message;
  with status 401 or 403, 500 and the not-authorized message; with status 429, 429 and the
  too-many-requests message; with a status of 500 or more, 502 and the provider-issue
  message; with any other status, that status and the raw error message when it is text,
  \<open>Request failed\<close> when it is not. The rows on a status hold whatever the code, the
  message and the payload are. The raw error message is the \<open>error\<close> field of the
  provider's payload when that is text and not empty; when the payload has no such field
  (or a falsy one) it is the message of the failure itself, and \<open>Unknown error\<close> when
  that is missing too.
  A status of 0 counts as no status (\<open>!status\<close>).
\<close>

theorem provider_error_classification:
  "(response err = None \<and> code err = JStr ''ECONNABORTED'' \<longrightarrow>
      buildClientErrorFromOpenRouter err =
        (504, ''The AI took too long to respond. Please try again.''))
   \<and> (response err = None \<and> code err \<noteq> JStr ''ECONNABORTED'' \<longrightarrow>
      buildClientErrorFromOpenRouter err =
        (502, ''Unable to reach the AI service. Please try again in a moment.''))
   \<and> (\<forall>r. response err = Some r \<and> (status r = 401 \<or> status r = 403) \<longrightarrow>
      buildClientErrorFromOpenRouter err =
        (500, ''The AI backend is not authorized. Please contact the administrator.''))
   \<and> (\<forall>r. response err = Some r \<and> status r = 429 \<longrightarrow>
      buildClientErrorFromOpenRouter err =
        (429, ''The AI is receiving too many requests. Please slow down and try again shortly.''))
   \<and> (\<forall>r. response err = Some r \<and> 500 \<le> status r \<longrightarrow>
      buildClientErrorFromOpenRouter err =
        (502, ''The AI provider is having an issue. Please try again later.''))
   \<and> (\<forall>r. response err = Some r \<and> 0 < status r \<and> status r < 500
          \<and> status r \<noteq> 401 \<and> status r \<noteq> 403 \<and> status r \<noteq> 429 \<longrightarrow>
      buildClientErrorFromOpenRouter err =
        (status r, (case rawMessage err of JStr s \<Rightarrow> s | _ \<Rightarrow> ''Request failed'')))
   \<and> (\<forall>r s. response err = Some r \<and> js_get (data r) ''error'' = JStr s \<and> s \<noteq> [] \<longrightarrow>
      rawMessage err = JStr s)
   \<and> (\<forall>r. response err = Some r \<and> falsy (js_get (data r) ''error'')
          \<and> falsy (message err) = False \<longrightarrow>
      rawMessage err = message err)
   \<and> (\<forall>r. response err = Some r \<and> falsy (js_get (data r) ''error'') \<and> falsy (message err) \<longrightarrow>
      rawMessage err = JStr ''Unknown error'')
   \<and> (\<forall>r. response err = Some r \<and> status r = 0 \<longrightarrow>
      buildClientErrorFromOpenRouter err =
        (if code err = JStr ''ECONNABORTED''
         then (504, ''The AI took too long to respond. Please try again.'')
         else (502, ''Unable to reach the AI service. Please try again in a moment.'')))"
  by (auto simp: buildClientErrorFromOpenRouter_def rawMessage_def)

text \<open>
  A timeout, a 401 that also carries the timeout code and a payload that is no text, a 404
  with a text payload, and a 200 whose body is no JSON object.
\<close>

theorem provider_error_classification_witness:
  "buildClientErrorFromOpenRouter timeout_failure =
     (504, ''The AI took too long to respond. Please try again.'')
   \<and> buildClientErrorFromOpenRouter unauthorized_timeout_failure =
     (500, ''The AI backend is not authorized. Please contact the administrator.'')
   \<and> buildClientErrorFromOpenRouter not_found_failure = (404, ''No such model'')
   \<and> buildClientErrorFromOpenRouter garbage_body_failure = (200, ''Unknown error'')"
proof -
  have "rawMessage garbage_body_failure = JStr ''Unknown error''"
    by (simp add: rawMessage_def garbage_body_failure_def)
  moreover have "rawMessage not_found_failure = JStr ''No such model''"
    by (simp add: rawMessage_def not_found_failure_def)
  ultimately show ?thesis
    using provider_error_classification [of timeout_failure]
      provider_error_classification [of unauthorized_timeout_failure]
      provider_error_classification [of not_found_failure]
      provider_error_classification [of garbage_body_failure]
    by (simp add: timeout_failure_def unauthorized_timeout_failure_def not_found_failure_def
        garbage_body_failure_def)
qed

section \<open>Properties of the extractor\<close>

lemma spaces_then_rest_Some:
  "spaces_then_rest s = Some t \<Longrightarrow> t = dropWhile is_space s"
  by (auto simp: spaces_then_rest_def split: if_splits)

lemma bulletMatch_Some: "bulletMatch line = Some t \<Longrightarrow> \<exists>u. t = dropWhile is_space u"
  by (auto simp: bulletMatch_def dest!: spaces_then_rest_Some split: list.splits if_splits)

lemma numberedMatch_Some: "numberedMatch line = Some t \<Longrightarrow> \<exists>u. t = dropWhile is_space u"
  by (auto simp: numberedMatch_def dest!: spaces_then_rest_Some split: list.splits if_splits)

lemma item_text_Some_cases:
  "item_text line = Some t \<Longrightarrow> t \<noteq> [] \<and> (bulletMatch line = Some t \<or> numberedMatch line = Some t)"
  by (auto simp: item_text_def split: option.splits list.splits)

lemma item_text_Some:
  assumes "item_text line = Some t"
  shows "t \<noteq> [] \<and> \<not> is_space (hd t)"
proof -
  from item_text_Some_cases [OF assms] obtain u where u: "t = dropWhile is_space u" and t: "t \<noteq> []"
    using bulletMatch_Some numberedMatch_Some by blast
  from t show ?thesis
    unfolding u by (simp add: hd_dropWhile)
qed

lemma trim_item_text:
  assumes "item_text line = Some t"
  shows "trim t \<noteq> [] \<and> \<not> is_space (hd (trim t)) \<and> \<not> is_space (last (trim t))"
proof -
  from item_text_Some [OF assms] have "t \<noteq> []" "\<not> is_space (hd t)" by simp_all
  then have "\<exists>c\<in>set t. \<not> is_space c"
    by (cases t) auto
  then have "trim t \<noteq> []" by (simp add: trim_Nil_iff)
  then show ?thesis by (simp add: hd_trim last_trim)
qed

lemma scan_tidy:
  "list_all tidy suggestions \<Longrightarrow> list_all tidy (scan rest suggestions)"
proof (induction rest arbitrary: suggestions)
  case Nil
  then show ?case by simp
next
  case (Cons raw rest)
  show ?case
  proof (cases "item_text (trim raw)")
    case None
    with Cons show ?thesis by (auto simp: Let_def)
  next
    case (Some t)
    then have "tidy (trim t)"
      using trim_item_text [of "trim raw" t] by (simp add: tidy_def)
    with Cons.prems have "list_all tidy (suggestions @ [trim t])" by simp
    with Cons.IH [of "suggestions @ [trim t]"] Cons.IH [of suggestions] Cons.prems Some
    show ?thesis by (auto simp: Let_def)
  qed
qed

lemma extract_tidy: "list_all tidy (extractFollowUpSuggestions reply)"
  by (auto simp: extractFollowUpSuggestions_def Let_def scan_tidy split: jsval.splits option.splits)

lemma item_text_None: "bulletMatch line = None \<Longrightarrow> numberedMatch line = None \<Longrightarrow> item_text line = None"
  by (simp add: item_text_def)

lemma heading_no_match:
  assumes "startsWith line ''#''"
  shows "bulletMatch line = None \<and> numberedMatch line = None"
proof -
  from assms obtain rest where l: "line = CHR ''#'' # rest"
    by (cases line) (simp_all add: startsWith_def)
  show ?thesis
    by (simp add: l bulletMatch_def numberedMatch_def is_digit_def)
qed

lemma item_text_not_heading:
  "item_text line = Some t \<Longrightarrow> line \<noteq> [] \<and> \<not> startsWith line ''#''"
  using heading_no_match [of line]
  by (auto simp: item_text_def bulletMatch_def numberedMatch_def split: option.splits list.splits)

lemma scan_blank: "trim raw = [] \<Longrightarrow> scan (raw # rest) suggestions = scan rest suggestions"
  by simp

lemma scan_no_item:
  "trim raw \<noteq> [] \<Longrightarrow> item_text (trim raw) = None \<Longrightarrow>
   scan (raw # rest) suggestions = (if suggestions = [] then scan rest suggestions else suggestions)"
  by (simp add: Let_def)

lemma scan_item:
  assumes "item_text (trim raw) = Some t"
  shows "scan (raw # rest) suggestions =
     (if 4 \<le> length suggestions then suggestions @ [trim t]
      else scan rest (suggestions @ [trim t]))"
proof -
  from item_text_not_heading [OF assms]
  have "trim raw \<noteq> []" "\<not> startsWith (trim raw) ''#''" by simp_all
  with assms show ?thesis
    by (auto simp: Let_def)
qed

lemma scan_append_stop:
  assumes "trim raw \<noteq> []" "item_text (trim raw) = None"
  shows "scan before suggestions \<noteq> [] \<Longrightarrow>
     scan (before @ raw # after) suggestions = scan before suggestions"
proof (induction before arbitrary: suggestions)
  case Nil
  then show ?case using assms by (simp add: Let_def)
next
  case (Cons b before)
  show ?case
  proof (cases "trim b = []")
    case True
    with Cons show ?thesis by simp
  next
    case False
    show ?thesis
    proof (cases "item_text (trim b)")
      case None
      with False Cons show ?thesis
        by (cases "suggestions = []") (simp_all add: scan_no_item del: scan.simps)
    next
      case (Some t)
      with Cons show ?thesis
        by (cases "4 \<le> length suggestions") (simp_all add: scan_item del: scan.simps)
    qed
  qed
qed

lemma split_lines_append:
  "split_lines cur (a @ CHR 0x0A # b) = split_lines cur a @ split_lines [] b"
  by (induction a arbitrary: cur) simp_all

lemma split_lines_single: "CHR 0x0A \<notin> set a \<Longrightarrow> split_lines cur a = [cur @ a]"
  by (induction a arbitrary: cur) auto

lemma split_lines_no_newline:
  "CHR 0x0A \<notin> set cur \<Longrightarrow> l \<in> set (split_lines cur s) \<Longrightarrow> CHR 0x0A \<notin> set l"
  by (induction s arbitrary: cur) (fastforce split: if_splits)+

lemma split_lines_joined:
  "concat (map (\<lambda>l. l @ [CHR 0x0A]) (split_lines cur s)) = cur @ s @ [CHR 0x0A]"
  by (induction s arbitrary: cur) auto

lemma findIndex_Some: "findIndex P xs = Some i \<Longrightarrow> i < length xs \<and> P (xs ! i)"
  by (induction xs arbitrary: i) (auto split: if_splits option.splits)

lemma findIndex_None: "findIndex P xs = None \<longleftrightarrow> (\<forall>x\<in>set xs. \<not> P x)"
  by (induction xs) (auto split: option.splits)

lemma findIndex_append: "findIndex P xs = Some i \<Longrightarrow> findIndex P (xs @ ys) = Some i"
  by (induction xs arbitrary: i) (auto split: if_splits option.splits)

lemma later_text_ignored:
  assumes ne: "extractFollowUpSuggestions (JStr s) \<noteq> []"
    and raw: "CHR 0x0A \<notin> set raw" "trim raw \<noteq> []" "item_text (trim raw) = None"
  shows "extractFollowUpSuggestions (JStr (s @ CHR 0x0A # raw @ CHR 0x0A # later))
       = extractFollowUpSuggestions (JStr s)"
proof -
  from ne have s: "s \<noteq> []"
    by (auto simp: extractFollowUpSuggestions_def)
  from ne obtain i where i: "findIndex is_header (split_lines [] s) = Some i"
    by (auto simp: extractFollowUpSuggestions_def Let_def split: if_splits option.splits)
  have res: "extractFollowUpSuggestions (JStr s) = scan (drop (i + 1) (split_lines [] s)) []"
    using s i by (simp add: extractFollowUpSuggestions_def)
  have len: "i < length (split_lines [] s)"
    using findIndex_Some [OF i] by simp
  have sp: "split_lines [] (s @ CHR 0x0A # raw @ CHR 0x0A # later)
      = split_lines [] s @ raw # split_lines [] later"
    using raw(1) by (simp add: split_lines_append split_lines_single)
  have "extractFollowUpSuggestions (JStr (s @ CHR 0x0A # raw @ CHR 0x0A # later))
      = scan (drop (i + 1) (split_lines [] s) @ raw # split_lines [] later) []"
    using len by (simp add: extractFollowUpSuggestions_def sp findIndex_append [OF i])
  also have "\<dots> = scan (drop (i + 1) (split_lines [] s)) []"
    using ne raw(2,3) unfolding res by (rule scan_append_stop [rotated 2])
  finally show ?thesis by (simp add: res)
qed

lemma spaces_then_rest_trim:
  assumes "trim raw = pre @ rest" "spaces_then_rest rest = Some t"
  shows "t \<noteq> []"
proof
  assume "t = []"
  with assms(2) have all: "\<forall>c\<in>set rest. is_space c" and ne: "rest \<noteq> []"
    by (auto simp: spaces_then_rest_def dropWhile_eq_Nil_conv split: if_splits)
  from ne have "is_space (last rest)" using all by simp
  moreover have "last (trim raw) = last rest" using ne by (simp add: assms(1))
  moreover have "trim raw \<noteq> []" using ne by (simp add: assms(1))
  ultimately show False using last_trim [of raw] by simp
qed

lemma bulletMatch_trim: "bulletMatch (trim raw) = Some t \<Longrightarrow> t \<noteq> []"
proof -
  assume a: "bulletMatch (trim raw) = Some t"
  then obtain c rest where "trim raw = [c] @ rest" "spaces_then_rest rest = Some t"
    by (auto simp: bulletMatch_def split: list.splits if_splits)
  then show ?thesis by (rule spaces_then_rest_trim)
qed

lemma numberedMatch_trim: "numberedMatch (trim raw) = Some t \<Longrightarrow> t \<noteq> []"
proof -
  assume a: "numberedMatch (trim raw) = Some t"
  then obtain rest where r: "dropWhile is_digit (trim raw) = CHR ''.'' # rest"
      "spaces_then_rest rest = Some t"
    by (auto simp: numberedMatch_def split: list.splits if_splits)
  have "trim raw = takeWhile is_digit (trim raw) @ dropWhile is_digit (trim raw)" by simp
  then have "trim raw = (takeWhile is_digit (trim raw) @ [CHR ''.'']) @ rest"
    by (simp add: r(1))
  then show ?thesis using r(2) by (rule spaces_then_rest_trim)
qed

lemma item_text_trim_None:
  "item_text (trim raw) = None \<longleftrightarrow> bulletMatch (trim raw) = None \<and> numberedMatch (trim raw) = None"
  using bulletMatch_trim [of raw] numberedMatch_trim [of raw]
  by (auto simp: item_text_def split: option.splits list.splits)

lemma digit_no_space: "is_digit c \<Longrightarrow> \<not> is_space c"
  by (auto simp: is_digit_def is_space_def)

lemma bare_bullet_no_item:
  assumes "\<forall>c\<in>set ws. is_space c" "c = CHR ''-'' \<or> c = CHR ''*''"
  shows "item_text (trim (c # ws)) = None"
proof -
  have "trim ([c] @ ws) = [c]"
    using assms by (intro trim_append_spaces) (auto simp: is_space_def)
  then have t: "trim (c # ws) = [c]" by simp
  show ?thesis
    using assms(2)
    by (auto simp: t item_text_def bulletMatch_def numberedMatch_def spaces_then_rest_def
        is_digit_def)
qed

lemma bare_number_no_item:
  assumes "\<forall>c\<in>set ws. is_space c" "ds \<noteq> []" "\<forall>c\<in>set ds. is_digit c"
  shows "item_text (trim (ds @ CHR ''.'' # ws)) = None"
proof -
  have hd: "is_digit (hd ds)" using assms(2,3) by simp
  have "trim ((ds @ [CHR ''.'']) @ ws) = ds @ [CHR ''.'']"
    using assms(1,2) hd
    by (intro trim_append_spaces) (auto simp: digit_no_space, simp add: is_space_def)
  then have t: "trim (ds @ CHR ''.'' # ws) = ds @ [CHR ''.'']" by simp
  have nd: "\<not> is_digit CHR ''.''" by (simp add: is_digit_def)
  have tw: "takeWhile is_digit (ds @ [CHR ''.'']) = ds"
    using assms(3) nd by simp
  have dw: "dropWhile is_digit (ds @ [CHR ''.'']) = [CHR ''.'']"
    using assms(3) nd by simp
  have b: "bulletMatch (ds @ [CHR ''.'']) = None"
    using assms(2) hd by (cases ds) (auto simp: bulletMatch_def is_digit_def)
  have n: "numberedMatch (ds @ [CHR ''.'']) = None"
    using assms(2) by (simp add: numberedMatch_def tw dw spaces_then_rest_def)
  show ?thesis
    by (simp add: t item_text_def b n)
qed

section \<open>The claims on the extractor\<close>

text \<open>
  Claim C5. On the reply \<open>### Follow-up suggestions\<close>, \<open>- What is X?\<close>,
  \<open>- How does Y work?\<close>, an empty line and \<open>More text\<close> the extractor returns exactly
  \<open>What is X?\<close> and \<open>How does Y work?\<close>. In general, once a suggestion is collected, the
  first line that is not blank and matches neither list pattern ends the loop with the
  suggestions collected so far, whatever follows; so a reply that yields suggestions
  yields the same ones when such a line and any further text are put after it.
\<close>

theorem list_is_contiguous:
  "extractFollowUpSuggestions
     (JStr ''### Follow-up suggestions\<newline>- What is X?\<newline>- How does Y work?\<newline>\<newline>More text'')
     = [''What is X?'', ''How does Y work?'']
   \<and> (suggestions \<noteq> [] \<and> trim raw \<noteq> []
        \<and> bulletMatch (trim raw) = None \<and> numberedMatch (trim raw) = None \<longrightarrow>
      scan (raw # rest) suggestions = suggestions)
   \<and> (extractFollowUpSuggestions (JStr s) \<noteq> [] \<and> CHR 0x0A \<notin> set raw \<and> trim raw \<noteq> []
        \<and> bulletMatch (trim raw) = None \<and> numberedMatch (trim raw) = None \<longrightarrow>
      extractFollowUpSuggestions (JStr (s @ CHR 0x0A # raw @ CHR 0x0A # later))
        = extractFollowUpSuggestions (JStr s))"
proof (intro conjI impI)
  show "extractFollowUpSuggestions
     (JStr ''### Follow-up suggestions\<newline>- What is X?\<newline>- How does Y work?\<newline>\<newline>More text'')
     = [''What is X?'', ''How does Y work?'']"
    by code_simp
next
  assume "suggestions \<noteq> [] \<and> trim raw \<noteq> []
        \<and> bulletMatch (trim raw) = None \<and> numberedMatch (trim raw) = None"
  then show "scan (raw # rest) suggestions = suggestions"
    by (simp add: scan_no_item item_text_None del: scan.simps)
next
  assume "extractFollowUpSuggestions (JStr s) \<noteq> [] \<and> CHR 0x0A \<notin> set raw \<and> trim raw \<noteq> []
        \<and> bulletMatch (trim raw) = None \<and> numberedMatch (trim raw) = None"
  then show "extractFollowUpSuggestions (JStr (s @ CHR 0x0A # raw @ CHR 0x0A # later))
        = extractFollowUpSuggestions (JStr s)"
    by (intro later_text_ignored) (simp_all add: item_text_None)
qed

text \<open>The section of the example, followed by \<open>More text\<close> and one more bullet.\<close>

theorem list_is_contiguous_witness:
  "extractFollowUpSuggestions (JStr sample_section) = [''What is X?'', ''How does Y work?'']
   \<and> extractFollowUpSuggestions
        (JStr (sample_section @ CHR 0x0A # ''More text'' @ CHR 0x0A # ''- Not this one''))
       = [''What is X?'', ''How does Y work?'']
   \<and> scan [''More text'', ''- Not this one''] [''What is X?''] = [''What is X?'']"
proof -
  have e: "extractFollowUpSuggestions (JStr sample_section) = [''What is X?'', ''How does Y work?'']"
    by code_simp
  have r: "CHR 0x0A \<notin> set ''More text''" "trim ''More text'' \<noteq> []"
    "bulletMatch (trim ''More text'') = None" "numberedMatch (trim ''More text'') = None"
    by code_simp+
  from list_is_contiguous [of "[''What is X?'']" "''More text''" "[''- Not this one'']"
      sample_section "''- Not this one''"] e r
  show ?thesis by simp
qed

text \<open>
  Claim C8. The extractor returns a list that is not empty only if the reply is text and
  one of its lines, trimmed and in lower case, is \<open>follow-up suggestions:\<close>, is
  \<open>follow-up suggestions\<close>, or starts with \<open>### follow-up suggestions\<close>. On
  \<open>No section here\<close> it returns the empty list.
\<close>

theorem header_is_a_hard_gate:
  "(extractFollowUpSuggestions reply \<noteq> [] \<longrightarrow>
      (\<exists>s. reply = JStr s
         \<and> (\<exists>line\<in>set (split_lines [] s).
               toLowerCase (trim line) = ''follow-up suggestions:''
             \<or> toLowerCase (trim line) = ''follow-up suggestions''
             \<or> startsWith (toLowerCase (trim line)) ''### follow-up suggestions'')))
   \<and> extractFollowUpSuggestions (JStr ''No section here'') = []"
proof (intro conjI impI)
  assume ne: "extractFollowUpSuggestions reply \<noteq> []"
  then obtain s where s: "reply = JStr s"
    by (cases reply) (simp_all add: extractFollowUpSuggestions_def)
  from ne obtain i where "findIndex is_header (split_lines [] s) = Some i"
    by (auto simp: s extractFollowUpSuggestions_def Let_def split: if_splits option.splits)
  then have "\<exists>line\<in>set (split_lines [] s). is_header line"
    using findIndex_None [of is_header "split_lines [] s"] by auto
  then show "\<exists>s. reply = JStr s
         \<and> (\<exists>line\<in>set (split_lines [] s).
               toLowerCase (trim line) = ''follow-up suggestions:''
             \<or> toLowerCase (trim line) = ''follow-up suggestions''
             \<or> startsWith (toLowerCase (trim line)) ''### follow-up suggestions'')"
    using s by (simp add: is_header_def Let_def)
next
  show "extractFollowUpSuggestions (JStr ''No section here'') = []"
    by code_simp
qed

text \<open>A reply that yields suggestions, and its header line.\<close>

theorem header_is_a_hard_gate_witness:
  "extractFollowUpSuggestions (JStr sample_section) \<noteq> []
   \<and> (\<exists>line\<in>set (split_lines [] sample_section).
               toLowerCase (trim line) = ''follow-up suggestions:''
             \<or> toLowerCase (trim line) = ''follow-up suggestions''
             \<or> startsWith (toLowerCase (trim line)) ''### follow-up suggestions'')"
proof -
  have e: "extractFollowUpSuggestions (JStr sample_section) = [''What is X?'', ''How does Y work?'']"
    by code_simp
  from header_is_a_hard_gate [of "JStr sample_section"] e
  show ?thesis by simp
qed

text \<open>
  Claim C9 says that only a heading line (always) or, once a suggestion exists, a line
  that is no list item ends the scan. Neither reading of it holds. A heading line does
  not always end the scan: before the first suggestion it is skipped, and the bullet after
  \<open># Notes\<close> is collected. And the scan is also ended by a list item, the fifth one: of
  six bullets the sixth is never read.
\<close>

theorem heading_before_first_item_is_skipped:
  "extractFollowUpSuggestions (JStr ''Follow-up suggestions\<newline># Notes\<newline>- a'') = [''a'']
   \<and> extractFollowUpSuggestions
        (JStr ''Follow-up suggestions\<newline>- a\<newline>- b\<newline>- c\<newline>- d\<newline>- e\<newline>- f'')
       = [''a'', ''b'', ''c'', ''d'', ''e'']"
  by code_simp

text \<open>
  Claim C9, amended. One pass of the loop, by the kind of the trimmed line. A blank line
  is skipped. Before any suggestion is collected, every line that is not blank and matches
  neither list pattern is skipped: prose as well as a heading line, which never matches a
  list pattern. So bullet items that prose separates from the header are still collected.
  Once a suggestion exists, such a line, heading or not, ends the scan. A list item is
  appended, trimmed, and ends the scan when it is the fifth. A trimmed line that matches a
  list pattern always gives an item, so these cases are all there are: the scan ends only
  at a non-list line after the first suggestion, at the fifth item, or after the last line.
\<close>

theorem scan_line_by_line:
  "scan [] suggestions = suggestions
   \<and> (trim raw = [] \<longrightarrow> scan (raw # rest) suggestions = scan rest suggestions)
   \<and> (trim raw \<noteq> [] \<and> bulletMatch (trim raw) = None \<and> numberedMatch (trim raw) = None \<longrightarrow>
        scan (raw # rest) [] = scan rest [])
   \<and> (startsWith (trim raw) ''#'' \<longrightarrow>
        bulletMatch (trim raw) = None \<and> numberedMatch (trim raw) = None)
   \<and> (suggestions \<noteq> [] \<and> trim raw \<noteq> []
        \<and> bulletMatch (trim raw) = None \<and> numberedMatch (trim raw) = None \<longrightarrow>
        scan (raw # rest) suggestions = suggestions)
   \<and> (item_text (trim raw) = Some t \<longrightarrow>
        scan (raw # rest) suggestions =
          (if 4 \<le> length suggestions then suggestions @ [trim t]
           else scan rest (suggestions @ [trim t])))
   \<and> (item_text (trim raw) = None) =
        (bulletMatch (trim raw) = None \<and> numberedMatch (trim raw) = None)
   \<and> extractFollowUpSuggestions
        (JStr ''Follow-up suggestions\<newline>Here are some ideas:\<newline>- a'') = [''a'']"
proof (intro conjI impI)
  show "extractFollowUpSuggestions
        (JStr ''Follow-up suggestions\<newline>Here are some ideas:\<newline>- a'') = [''a'']"
    by code_simp
next
  show "scan [] suggestions = suggestions"
    by simp
next
  assume "startsWith (trim raw) ''#''"
  then show "bulletMatch (trim raw) = None" "numberedMatch (trim raw) = None"
    using heading_no_match by blast+
next
  assume "item_text (trim raw) = Some t"
  then show "scan (raw # rest) suggestions =
          (if 4 \<le> length suggestions then suggestions @ [trim t]
           else scan rest (suggestions @ [trim t]))"
    by (rule scan_item)
next
  show "(item_text (trim raw) = None) =
        (bulletMatch (trim raw) = None \<and> numberedMatch (trim raw) = None)"
    by (rule item_text_trim_None)
qed (simp_all add: scan_no_item scan_blank item_text_None del: scan.simps)

text \<open>
  Prose and a heading before the first item, a heading and a blank line after it, an item,
  and the fifth item.
\<close>

theorem scan_line_by_line_witness:
  "scan [''Here are some ideas:'', ''- a''] [] = scan [''- a''] []
   \<and> scan [''# Notes'', ''- a''] [] = scan [''- a''] []
   \<and> scan [''# Notes'', ''- b''] [''a''] = [''a'']
   \<and> scan ['' '', ''- b''] [''a''] = scan [''- b''] [''a'']
   \<and> scan [''- b'', ''- c''] [''a''] = scan [''- c''] [''a'', ''b'']
   \<and> scan [''5. e'', ''- f''] [''a'', ''b'', ''c'', ''d''] = [''a'', ''b'', ''c'', ''d'', ''e'']"
proof -
  have p: "trim ''Here are some ideas:'' \<noteq> []"
    "bulletMatch (trim ''Here are some ideas:'') = None"
    "numberedMatch (trim ''Here are some ideas:'') = None"
    by code_simp+
  have h: "trim ''# Notes'' \<noteq> []" "startsWith (trim ''# Notes'') ''#''"
    by code_simp+
  have b: "trim '' '' = []"
    by code_simp
  have i: "item_text (trim ''- b'') = Some ''b''" "item_text (trim ''5. e'') = Some ''e''"
    "trim ''b'' = ''b''" "trim ''e'' = ''e''"
    by code_simp+
  from scan_line_by_line [where raw = "''Here are some ideas:''" and rest = "[''- a'']" and suggestions = "[]" and t = "[]"] p
  have 1: "scan [''Here are some ideas:'', ''- a''] [] = scan [''- a''] []"
    by blast
  from scan_line_by_line [where raw = "''# Notes''" and rest = "[''- a'']" and suggestions = "[]" and t = "[]"] h
  have 2: "scan [''# Notes'', ''- a''] [] = scan [''- a''] []"
    by blast
  have "[''a''] \<noteq> ([] :: string list)" by simp
  with scan_line_by_line [where raw = "''# Notes''" and rest = "[''- b'']" and suggestions = "[''a'']" and t = "[]"] h
  have 3: "scan [''# Notes'', ''- b''] [''a''] = [''a'']"
    by blast
  from scan_line_by_line [where raw = "'' ''" and rest = "[''- b'']" and suggestions = "[''a'']" and t = "[]"] b
  have 4: "scan ['' '', ''- b''] [''a''] = scan [''- b''] [''a'']"
    by blast
  from scan_line_by_line [where raw = "''- b''" and rest = "[''- c'']" and suggestions = "[''a'']" and t = "''b''"] i
  have 5: "scan [''- b'', ''- c''] [''a''] = scan [''- c''] [''a'', ''b'']"
    by simp
  from scan_line_by_line [where raw = "''5. e''" and rest = "[''- f'']" and suggestions = "[''a'', ''b'', ''c'', ''d'']" and t = "''e''"] i
  have 6: "scan [''5. e'', ''- f''] [''a'', ''b'', ''c'', ''d''] = [''a'', ''b'', ''c'', ''d'', ''e'']"
    by simp
  from 1 2 3 4 5 6 show ?thesis by blast
qed

text \<open>
  Claim C10. Every string the extractor returns is not empty and has no white space at its
  start or end (\<open>trim\<close> leaves it as it is). A bullet marker or a numbered marker followed
  by white space only gives no item, and the text of an item is trimmed when it is
  appended.
\<close>

theorem suggestions_are_tidy:
  "(\<forall>x\<in>set (extractFollowUpSuggestions reply).
       x \<noteq> [] \<and> \<not> is_space (hd x) \<and> \<not> is_space (last x) \<and> trim x = x)
   \<and> ((\<forall>c\<in>set ws. is_space c) \<longrightarrow>
        item_text (trim (CHR ''-'' # ws)) = None \<and> item_text (trim (CHR ''*'' # ws)) = None)
   \<and> (ds \<noteq> [] \<and> (\<forall>c\<in>set ds. is_digit c) \<and> (\<forall>c\<in>set ws. is_space c) \<longrightarrow>
        item_text (trim (ds @ CHR ''.'' # ws)) = None)
   \<and> (item_text (trim raw) = Some t \<longrightarrow>
        tidy (trim t)
        \<and> scan (raw # rest) suggestions =
          (if 4 \<le> length suggestions then suggestions @ [trim t]
           else scan rest (suggestions @ [trim t])))"
proof (intro conjI impI ballI)
  fix x assume "x \<in> set (extractFollowUpSuggestions reply)"
  then have t: "tidy x"
    using extract_tidy [of reply] by (simp add: list_all_iff)
  then show "x \<noteq> []" "\<not> is_space (hd x)" "\<not> is_space (last x)"
    by (simp_all add: tidy_def)
  from t show "trim x = x"
    by (simp add: tidy_def trim_fixed)
next
  assume "item_text (trim raw) = Some t"
  then show "tidy (trim t)"
    using trim_item_text [of "trim raw" t] by (simp add: tidy_def)
next
  assume "item_text (trim raw) = Some t"
  then show "scan (raw # rest) suggestions =
          (if 4 \<le> length suggestions then suggestions @ [trim t]
           else scan rest (suggestions @ [trim t]))"
    by (rule scan_item)
qed (simp_all add: bare_bullet_no_item bare_number_no_item)

text \<open>
  A section with a bare bullet, a numbered item with white space around its text, and a
  bare number: one suggestion.
\<close>

theorem suggestions_are_tidy_witness:
  "extractFollowUpSuggestions (JStr ''Follow-up suggestions:\<newline>-  \<newline>1.   What is X?  \<newline>2. '')
     = [''What is X?'']
   \<and> ''What is X?'' \<noteq> [] \<and> trim ''What is X?'' = ''What is X?''
   \<and> item_text (trim ''-  '') = None
   \<and> item_text (trim ''2. '') = None"
proof -
  have e: "extractFollowUpSuggestions (JStr ''Follow-up suggestions:\<newline>-  \<newline>1.   What is X?  \<newline>2. '')
     = [''What is X?'']"
    by code_simp
  have s: "\<forall>c\<in>set ''  ''. is_space c" "\<forall>c\<in>set '' ''. is_space c"
    "''2'' \<noteq> []" "\<forall>c\<in>set ''2''. is_digit c"
    by (simp_all add: is_space_def is_digit_def)
  from suggestions_are_tidy [of "JStr ''Follow-up suggestions:\<newline>-  \<newline>1.   What is X?  \<newline>2. ''" "''  ''" "''2''"]
    suggestions_are_tidy [of "JStr ''Follow-up suggestions:\<newline>-  \<newline>1.   What is X?  \<newline>2. ''" "'' ''" "''2''"]
    e s
  show ?thesis by simp
qed

end
